theory Spec2Isabelle
  imports Main
begin

section \<open>JavaScript values\<close>

text \<open>
  The values that flow through \<^verbatim>\<open>App.js\<close>: what \<^verbatim>\<open>response.data\<close> of an HTTP
  response can be (parsed JSON, or a string for a non-JSON body), the object literals the
  code builds, and \<^verbatim>\<open>null\<close>/\<^verbatim>\<open>undefined\<close>. Numbers are integers here: the program
  only stores and compares them. An object is an association list in source order; as in
  JavaScript, a later binding of a key overrides an earlier one.
\<close>

datatype jsval =
    JUndefined
  | JNull
  | JBool bool
  | JNum int
  | JStr string
  | JArr "jsval list"
  | JObj "(string \<times> jsval) list"

datatype error = NetworkError | TypeError | HostError

text \<open>JavaScript truthiness: what \<^verbatim>\<open>if (v)\<close>, \<^verbatim>\<open>!v\<close>, \<^verbatim>\<open>a && b\<close> and \<^verbatim>\<open>a || b\<close> test.\<close>

fun truthy :: "jsval \<Rightarrow> bool" where
  "truthy JUndefined = False"
| "truthy JNull = False"
| "truthy (JBool b) = b"
| "truthy (JNum n) = (n \<noteq> 0)"
| "truthy (JStr s) = (s \<noteq> [])"
| "truthy (JArr xs) = True"
| "truthy (JObj kvs) = True"

fun nullish :: "jsval \<Rightarrow> bool" where
  "nullish JUndefined = True"
| "nullish JNull = True"
| "nullish v = False"

text \<open>
  \<^verbatim>\<open>v.k\<close>: a TypeError on \<^verbatim>\<open>null\<close> and \<^verbatim>\<open>undefined\<close>, the bound value on an object
  that has the key, \<^verbatim>\<open>undefined\<close> otherwise. The keys the program reads (\<^verbatim>\<open>id\<close>,
  \<^verbatim>\<open>username\<close>, \<^verbatim>\<open>first_name\<close>, \<^verbatim>\<open>last_name\<close>, \<^verbatim>\<open>photo_url\<close>, \<^verbatim>\<open>telegram_id\<close>,
  \<^verbatim>\<open>best_score\<close>, \<^verbatim>\<open>games_played\<close>, \<^verbatim>\<open>total_score\<close>, \<^verbatim>\<open>rank\<close>, \<^verbatim>\<open>user\<close>) are
  defined on no prototype, so a boolean, number, string or array answers \<^verbatim>\<open>undefined\<close>.
\<close>

fun get_prop :: "jsval \<Rightarrow> string \<Rightarrow> error + jsval" where
  "get_prop JUndefined k = Inl TypeError"
| "get_prop JNull k = Inl TypeError"
| "get_prop (JObj kvs) k =
     Inr (case map_of (rev kvs) k of None \<Rightarrow> JUndefined | Some v \<Rightarrow> v)"
| "get_prop v k = Inr JUndefined"

text \<open>\<^verbatim>\<open>a || b\<close>, with \<^verbatim>\<open>b\<close> evaluated only when \<^verbatim>\<open>a\<close> is falsy.\<close>

definition js_or :: "error + jsval \<Rightarrow> error + jsval \<Rightarrow> error + jsval" where
  "js_or a b = (case a of Inl e \<Rightarrow> Inl e | Inr x \<Rightarrow> if truthy x then Inr x else b)"

text \<open>\<^verbatim>\<open>a && b\<close>, with \<^verbatim>\<open>b\<close> evaluated only when \<^verbatim>\<open>a\<close> is truthy.\<close>

definition js_and :: "error + jsval \<Rightarrow> error + jsval \<Rightarrow> error + jsval" where
  "js_and a b = (case a of Inl e \<Rightarrow> Inl e | Inr x \<Rightarrow> if truthy x then b else Inr x)"

text \<open>Decimal digits of a natural number, and the string a value becomes in a template
  literal \<^verbatim>\<open>`${v}`\<close> or a URL.\<close>

fun digits :: "nat \<Rightarrow> string" where
  "digits n =
     (if n < 10 then [''0123456789'' ! n]
      else digits (n div 10) @ [''0123456789'' ! (n mod 10)])"

declare digits.simps [simp del]

definition show_int :: "int \<Rightarrow> string" where
  "show_int i = (if i < 0 then CHR ''-'' # digits (nat (- i)) else digits (nat i))"

fun intersperse :: "string \<Rightarrow> string list \<Rightarrow> string" where
  "intersperse sep [] = []"
| "intersperse sep [x] = x"
| "intersperse sep (x # y # r) = x @ sep @ intersperse sep (y # r)"

fun to_str :: "jsval \<Rightarrow> string" where
  "to_str JUndefined = ''undefined''"
| "to_str JNull = ''null''"
| "to_str (JBool b) = (if b then ''true'' else ''false'')"
| "to_str (JNum n) = show_int n"
| "to_str (JStr s) = s"
| "to_str (JArr xs) =
     intersperse '','' (map (\<lambda>x. if nullish x then [] else to_str x) xs)"
| "to_str (JObj kvs) = ''[object Object]''"

text \<open>A template literal: the pieces, each a fixed text or an interpolated expression,
  evaluated left to right.\<close>

fun template :: "(string + (error + jsval)) list \<Rightarrow> error + jsval" where
  "template [] = Inr (JStr [])"
| "template (Inl t # r) =
     (case template r of Inr (JStr s) \<Rightarrow> Inr (JStr (t @ s)) | Inr v \<Rightarrow> Inr v | Inl e \<Rightarrow> Inl e)"
| "template (Inr (Inl e) # r) = Inl e"
| "template (Inr (Inr v) # r) =
     (case template r of Inr (JStr s) \<Rightarrow> Inr (JStr (to_str v @ s)) | Inr w \<Rightarrow> Inr w | Inl e \<Rightarrow> Inl e)"

text \<open>An object literal \<^verbatim>\<open>{k1: e1, ..., kn: en}\<close>: the fields are evaluated in order
  and the first one that throws aborts the literal.\<close>

fun obj_lit :: "(string \<times> (error + jsval)) list \<Rightarrow> error + jsval" where
  "obj_lit [] = Inr (JObj [])"
| "obj_lit ((k, Inl e) # r) = Inl e"
| "obj_lit ((k, Inr v) # r) =
     (case obj_lit r of Inr (JObj kvs) \<Rightarrow> Inr (JObj ((k, v) # kvs)) | Inr w \<Rightarrow> Inr w | Inl e \<Rightarrow> Inl e)"

section \<open>The network and the console\<close>

text \<open>
  The four calls \<^verbatim>\<open>App.js\<close> makes through axios. \<^verbatim>\<open>PostUsers body hdr\<close> is
  \<^verbatim>\<open>axios.post(`${API}/users`, body, config)\<close>, with \<^verbatim>\<open>hdr\<close> the value of the
  \<^verbatim>\<open>X-Telegram-Init-Data\<close> header when a config is passed; \<^verbatim>\<open>GetStats id\<close> is
  \<^verbatim>\<open>axios.get(`${API}/stats/user/${id}`)\<close>; \<^verbatim>\<open>PostScores body\<close> is
  \<^verbatim>\<open>axios.post(`${API}/scores`, body)\<close>; \<^verbatim>\<open>GetLeaderboard\<close> is
  \<^verbatim>\<open>axios.get(`${API}/leaderboard`)\<close>.
\<close>

datatype request =
    PostUsers jsval "jsval option"
  | GetStats string
  | PostScores jsval
  | GetLeaderboard

text \<open>
  The network is a parameter: \<open>net k r\<close> is what the \<open>k\<close>-th request of a run (counted
  from 0) gets when it is \<open>r\<close>; \<open>Inl e\<close> is a rejected promise, \<open>Inr d\<close> a response
  whose \<^verbatim>\<open>data\<close> is \<open>d\<close>.
\<close>

type_synonym net = "nat \<Rightarrow> request \<Rightarrow> error + jsval"

datatype level = Log | Warn | Error

record io =
  requests :: "request list"
  console :: "(level \<times> string) list"

definition http :: "net \<Rightarrow> request \<Rightarrow> 'a io_scheme \<Rightarrow> (error + jsval) \<times> 'a io_scheme" where
  "http net r s = (net (length (requests s)) r, s\<lparr>requests := requests s @ [r]\<rparr>)"

definition console_out :: "level \<Rightarrow> string \<Rightarrow> 'a io_scheme \<Rightarrow> 'a io_scheme" where
  "console_out l m s = s\<lparr>console := console s @ [(l, m)]\<rparr>"

section \<open>App: state and session bootstrap\<close>

text \<open>
  The state of the \<^verbatim>\<open>App\<close> component (its four \<^verbatim>\<open>useState\<close> cells), the requests and
  console lines issued so far, and the number of pending
  \<^verbatim>\<open>setTimeout(() => setIsLoading(false), 2000)\<close> callbacks.
\<close>

record app = io +
  activeTab :: string
  isLoading :: bool
  user :: jsval
  userStats :: jsval
  loadingTimeouts :: nat

definition App_init :: app where
  "App_init =
     \<lparr>requests = [], console = [],
      activeTab = ''game'', isLoading = True, user = JNull,
      userStats = JObj [(''username'', JStr ''Player''), (''avatar'', JNull),
        (''bestScore'', JNum 0), (''gamesPlayed'', JNum 0), (''totalScore'', JNum 0),
        (''rank'', JNum 0)],
      loadingTimeouts = 0\<rparr>"

text \<open>
  The object literal passed to \<^verbatim>\<open>setUserStats\<close> after a successful rank fetch; the
  same expression stands in \<^verbatim>\<open>initializeApp\<close>, in \<^verbatim>\<open>createDemoUser\<close>, in the
  refresh effect of \<^verbatim>\<open>App\<close> and in \<^verbatim>\<open>ProfileTab\<close>, over the user record \<open>u\<close> and the
  data \<open>r\<close> of the rank response.
\<close>

definition merged_stats :: "jsval \<Rightarrow> jsval \<Rightarrow> error + jsval" where
  "merged_stats u r =
     obj_lit
       [(''username'',
           js_or (get_prop u ''username'')
             (js_or (get_prop u ''first_name'')
                (template [Inl ''ID: '', Inr (get_prop u ''telegram_id'')]))),
        (''avatar'', get_prop u ''photo_url''),
        (''bestScore'', get_prop u ''best_score''),
        (''gamesPlayed'', get_prop u ''games_played''),
        (''totalScore'', get_prop u ''total_score''),
        (''rank'', get_prop r ''rank'')]"

text \<open>\<^verbatim>\<open>createDemoUser\<close>. \<open>rnd\<close> is the value of
  \<^verbatim>\<open>Math.floor(Math.random() * 1000000000)\<close>.\<close>

definition demoUser :: "int \<Rightarrow> jsval" where
  "demoUser rnd =
     JObj [(''username'', JStr ''DemoPlayer''), (''first_name'', JStr ''Demo''),
       (''last_name'', JStr ''Player''), (''telegram_id'', JNum rnd)]"

definition localDemoUser :: jsval where
  "localDemoUser =
     JObj [(''id'', JStr ''demo-user''), (''username'', JStr ''DemoPlayer''),
       (''best_score'', JNum 0), (''total_score'', JNum 0), (''games_played'', JNum 0)]"

definition localDemoStats :: jsval where
  "localDemoStats =
     JObj [(''username'', JStr ''DemoPlayer''), (''avatar'', JNull),
       (''bestScore'', JNum 0), (''gamesPlayed'', JNum 0), (''totalScore'', JNum 0),
       (''rank'', JNum 0)]"

text \<open>The body of the \<^verbatim>\<open>try\<close> block: the state it leaves, and the error it threw.\<close>

definition createDemoUser_try :: "net \<Rightarrow> int \<Rightarrow> app \<Rightarrow> error option \<times> app" where
  "createDemoUser_try net rnd s =
     (case http net (PostUsers (demoUser rnd) None) s of
        (Inl e, s1) \<Rightarrow> (Some e, s1)
      | (Inr data, s1) \<Rightarrow>
          (let s2 = s1\<lparr>user := data\<rparr> in
           case get_prop data ''id'' of
             Inl e \<Rightarrow> (Some e, s2)
           | Inr uid \<Rightarrow>
               (case http net (GetStats (to_str uid)) s2 of
                  (Inl e, s3) \<Rightarrow> (Some e, s3)
                | (Inr sdata, s3) \<Rightarrow>
                    (case merged_stats data sdata of
                       Inl e \<Rightarrow> (Some e, s3)
                     | Inr st \<Rightarrow>
                         (None, console_out Log ''Demo user initialized:''
                                  (s3\<lparr>userStats := st\<rparr>))))))"

definition createDemoUser :: "net \<Rightarrow> int \<Rightarrow> app \<Rightarrow> error option \<times> app" where
  "createDemoUser net rnd s =
     (case createDemoUser_try net rnd s of
        (None, s1) \<Rightarrow> (None, s1)
      | (Some e, s1) \<Rightarrow>
          (None,
           (console_out Error ''Failed to initialize demo user:'' s1)
             \<lparr>user := localDemoUser, userStats := localDemoStats\<rparr>))"

text \<open>
  The host environment \<^verbatim>\<open>tg = window.Telegram?.WebApp\<close>: absent (\<open>None\<close>) or an
  object with the two fields the code reads and the two methods it calls, each of which
  may throw.
\<close>

record host =
  initDataUnsafe :: jsval
  initData :: jsval
  ready_throws :: bool
  expand_throws :: bool

text \<open>\<^verbatim>\<open>tg && tg.initDataUnsafe?.user\<close>\<close>

definition host_user :: "host option \<Rightarrow> jsval" where
  "host_user tg =
     (case tg of
        None \<Rightarrow> JUndefined
      | Some h \<Rightarrow>
          (case get_prop (initDataUnsafe h) ''user'' of Inl e \<Rightarrow> JUndefined | Inr v \<Rightarrow> v))"

definition userData :: "jsval \<Rightarrow> error + jsval" where
  "userData telegramUser =
     obj_lit
       [(''telegram_id'', get_prop telegramUser ''id''),
        (''username'',
           js_or (get_prop telegramUser ''username'')
             (template [Inr (get_prop telegramUser ''first_name''), Inl ''_'',
                        Inr (get_prop telegramUser ''id'')])),
        (''first_name'', get_prop telegramUser ''first_name''),
        (''last_name'', get_prop telegramUser ''last_name''),
        (''photo_url'', get_prop telegramUser ''photo_url'')]"

text \<open>The inner \<^verbatim>\<open>try\<close> block of \<^verbatim>\<open>initializeApp\<close>: the real identity.\<close>

definition initializeApp_real :: "net \<Rightarrow> host \<Rightarrow> jsval \<Rightarrow> app \<Rightarrow> error option \<times> app" where
  "initializeApp_real net h body s =
     (case js_or (Inr (initData h)) (Inr (JStr [])) of
        Inl e \<Rightarrow> (Some e, s)
      | Inr hdr \<Rightarrow>
     (case http net (PostUsers body (Some hdr)) s of
        (Inl e, s1) \<Rightarrow> (Some e, s1)
      | (Inr data, s1) \<Rightarrow>
          (let s2 = s1\<lparr>user := data\<rparr> in
           case get_prop data ''id'' of
             Inl e \<Rightarrow> (Some e, s2)
           | Inr uid \<Rightarrow>
               (case http net (GetStats (to_str uid)) s2 of
                  (Inl e, s3) \<Rightarrow> (Some e, s3)
                | (Inr sdata, s3) \<Rightarrow>
                    (case merged_stats data sdata of
                       Inl e \<Rightarrow> (Some e, s3)
                     | Inr st \<Rightarrow>
                         (None, console_out Log ''User initialized with backend response:''
                                  (s3\<lparr>userStats := st\<rparr>)))))))"

text \<open>The outer \<^verbatim>\<open>try\<close> block. \<open>rnd\<close> is the random draw of the
  \<^verbatim>\<open>createDemoUser\<close> call it may make.\<close>

definition initializeApp_try :: "net \<Rightarrow> int \<Rightarrow> host option \<Rightarrow> app \<Rightarrow> error option \<times> app" where
  "initializeApp_try net rnd tg s =
     (case tg of
        None \<Rightarrow>
          createDemoUser net rnd
            (console_out Warn
               ''Telegram WebApp is not available or user data is missing. Initializing demo user.'' s)
      | Some h \<Rightarrow>
          if truthy (host_user tg) then
            (if ready_throws h then (Some HostError, s)
             else if expand_throws h then (Some HostError, s)
             else
               (case userData (host_user tg) of
                  Inl e \<Rightarrow> (Some e, s)
                | Inr body \<Rightarrow>
                    (case initializeApp_real net h body
                            (console_out Log ''Sending userData to backend:'' s) of
                       (None, s1) \<Rightarrow> (None, s1)
                     | (Some e, s1) \<Rightarrow>
                         createDemoUser net rnd
                           (console_out Error ''Failed to initialize Telegram user:'' s1))))
          else
            createDemoUser net rnd
              (console_out Warn
                 ''Telegram WebApp is not available or user data is missing. Initializing demo user.'' s))"

text \<open>
  \<^verbatim>\<open>initializeApp\<close>: the \<^verbatim>\<open>try\<close> block, the \<^verbatim>\<open>catch\<close> that calls
  \<^verbatim>\<open>createDemoUser\<close> again (random draw \<open>rnd'\<close>), and the \<^verbatim>\<open>finally\<close> that schedules
  the end of the loading screen. The result is the error the returned promise rejects
  with, if any.
\<close>

definition initializeApp :: "net \<Rightarrow> int \<Rightarrow> int \<Rightarrow> host option \<Rightarrow> app \<Rightarrow> error option \<times> app" where
  "initializeApp net rnd rnd' tg s =
     (let (r, s1) =
        (case initializeApp_try net rnd tg s of
           (None, s1) \<Rightarrow> (None, s1)
         | (Some e, s1) \<Rightarrow>
             createDemoUser net rnd' (console_out Error ''App initialization error:'' s1))
      in (r, s1\<lparr>loadingTimeouts := loadingTimeouts s1 + 1\<rparr>))"


text \<open>
  The second effect of \<^verbatim>\<open>App\<close>, with the dependency \<^verbatim>\<open>[user]\<close>: React runs it after
  every render in which \<^verbatim>\<open>user\<close> changed, so also after the \<^verbatim>\<open>setUser\<close> calls of
  \<^verbatim>\<open>initializeApp\<close> and \<^verbatim>\<open>createDemoUser\<close>. For a truthy user with a truthy id it
  fetches the rank again and replaces \<^verbatim>\<open>userStats\<close> by the object built from that user
  and the answer; a failure is only logged. The function is one run of the effect, on the
  state whose \<^verbatim>\<open>user\<close> it closed over.
\<close>

definition refreshUserStats :: "net \<Rightarrow> app \<Rightarrow> error option \<times> app" where
  "refreshUserStats net s =
     (case js_and (Inr (user s)) (get_prop (user s) ''id'') of
        Inl e \<Rightarrow> (Some e, s)
      | Inr c \<Rightarrow>
          if truthy c then
            (case get_prop (user s) ''id'' of
               Inl e \<Rightarrow> (None, console_out Error ''Failed to refresh user stats:'' s)
             | Inr uid \<Rightarrow>
                 (case http net (GetStats (to_str uid)) s of
                    (Inl e, s1) \<Rightarrow> (None, console_out Error ''Failed to refresh user stats:'' s1)
                  | (Inr data, s1) \<Rightarrow>
                      (case merged_stats (user s) data of
                         Inl e \<Rightarrow> (None, console_out Error ''Failed to refresh user stats:'' s1)
                       | Inr st \<Rightarrow> (None, s1\<lparr>userStats := st\<rparr>))))
          else (None, s))"

text \<open>
  The demo attempt whose post is the \<open>k\<close>-th request fails, that is, the \<^verbatim>\<open>try\<close> block
  of \<^verbatim>\<open>createDemoUser\<close> throws, in four ways: the post is rejected; it is answered with
  \<^verbatim>\<open>null\<close> or \<^verbatim>\<open>undefined\<close>, so that reading \<^verbatim>\<open>response.data.id\<close> throws; the rank
  fetch is rejected; or it is answered with \<^verbatim>\<open>null\<close> or \<^verbatim>\<open>undefined\<close>, so that reading
  \<^verbatim>\<open>statsResponse.data.rank\<close> throws.
\<close>

definition demo_attempt_fails :: "net \<Rightarrow> nat \<Rightarrow> int \<Rightarrow> bool" where
  "demo_attempt_fails net k rnd =
     (case net k (PostUsers (demoUser rnd) None) of
        Inl e \<Rightarrow> True
      | Inr data \<Rightarrow>
          (case get_prop data ''id'' of
             Inl e \<Rightarrow> True
           | Inr uid \<Rightarrow>
               (case net (k + 1) (GetStats (to_str uid)) of
                  Inl e \<Rightarrow> True
                | Inr sdata \<Rightarrow> nullish sdata)))"

text \<open>
  The requests \<^verbatim>\<open>createDemoUser\<close> sends are the only posts to \<^verbatim>\<open>/users\<close> without the
  init-data header; counting them counts the attempts of the demo-identity path.
\<close>

fun is_demo_post :: "request \<Rightarrow> bool" where
  "is_demo_post (PostUsers body None) = True"
| "is_demo_post r = False"

definition demo_attempts :: "'a io_scheme \<Rightarrow> nat" where
  "demo_attempts s = length (filter is_demo_post (requests s))"

subsection \<open>The example scenario\<close>

text \<open>
  A host whose identity is \<^verbatim>\<open>{id: 42, username: "alice"}\<close> (with init data \<open>d\<close>, and
  \<^verbatim>\<open>ready\<close>/\<^verbatim>\<open>expand\<close> that return), and a network that answers every post to
  \<^verbatim>\<open>/users\<close> with \<open>resp\<close> and every rank fetch with \<^verbatim>\<open>{rank: 7}\<close>.
\<close>

definition scenario_host :: "jsval \<Rightarrow> host" where
  "scenario_host d =
     \<lparr>initDataUnsafe = JObj [(''user'', JObj [(''id'', JNum 42), (''username'', JStr ''alice'')])],
      initData = d, ready_throws = False, expand_throws = False\<rparr>"

definition scenario_net :: "jsval \<Rightarrow> net" where
  "scenario_net resp k r =
     (case r of
        PostUsers body hdr \<Rightarrow> Inr resp
      | GetStats uid \<Rightarrow> Inr (JObj [(''rank'', JNum 7)])
      | PostScores body \<Rightarrow> Inl NetworkError
      | GetLeaderboard \<Rightarrow> Inl NetworkError)"

text \<open>The user record of the scenario: with the keys as the scenario writes them, with
  the keys the code reads, and with the user name added.\<close>

definition scenario_response :: jsval where
  "scenario_response =
     JObj [(''id'', JStr ''u1''), (''bestScore'', JNum 100), (''gamesPlayed'', JNum 3),
           (''totalScore'', JNum 250)]"

definition scenario_response_wire :: jsval where
  "scenario_response_wire =
     JObj [(''id'', JStr ''u1''), (''best_score'', JNum 100), (''games_played'', JNum 3),
           (''total_score'', JNum 250)]"

definition scenario_response_named :: jsval where
  "scenario_response_named =
     JObj [(''id'', JStr ''u1''), (''username'', JStr ''alice''), (''best_score'', JNum 100),
           (''games_played'', JNum 3), (''total_score'', JNum 250)]"

text \<open>
  A backend that answers every post to \<^verbatim>\<open>/users\<close> with an empty body (axios then
  gives the empty string as \<^verbatim>\<open>data\<close>) and every rank fetch with \<^verbatim>\<open>{rank: 5}\<close>.
\<close>

definition empty_body_net :: net where
  "empty_body_net k r =
     (case r of
        PostUsers body hdr \<Rightarrow> Inr (JStr [])
      | GetStats uid \<Rightarrow> Inr (JObj [(''rank'', JNum 5)])
      | PostScores body \<Rightarrow> Inr (JObj [])
      | GetLeaderboard \<Rightarrow> Inr (JArr []))"

text \<open>
  A backend that rejects every post to \<^verbatim>\<open>/users\<close> and answers every rank fetch with
  \<^verbatim>\<open>{rank: 9}\<close>.
\<close>

definition posts_rejected_net :: net where
  "posts_rejected_net k r =
     (case r of
        PostUsers body hdr \<Rightarrow> Inl NetworkError
      | GetStats uid \<Rightarrow> Inr (JObj [(''rank'', JNum 9)])
      | PostScores body \<Rightarrow> Inl NetworkError
      | GetLeaderboard \<Rightarrow> Inl NetworkError)"

section \<open>BlockBlastGame: the game session\<close>

text \<open>
  The four \<^verbatim>\<open>useState\<close> cells of \<^verbatim>\<open>BlockBlastGame\<close>, with the requests and console
  lines issued so far. \<^verbatim>\<open>gameStartTime\<close> is \<^verbatim>\<open>null\<close> (\<open>None\<close>) or a value of
  \<^verbatim>\<open>Date.now()\<close>.
\<close>

record game = io +
  score :: int
  gameOver :: bool
  isPlaying :: bool
  gameStartTime :: "int option"

definition BlockBlastGame_init :: game where
  "BlockBlastGame_init =
     \<lparr>requests = [], console = [], score = 0, gameOver = False, isPlaying = False,
      gameStartTime = None\<rparr>"

text \<open>\<^verbatim>\<open>startGame\<close>; \<open>now\<close> is the value of \<^verbatim>\<open>Date.now()\<close>.\<close>

definition startGame :: "int \<Rightarrow> 'a game_scheme \<Rightarrow> 'a game_scheme" where
  "startGame now s = s\<lparr>isPlaying := True, gameOver := False, score := 0, gameStartTime := Some now\<rparr>"

text \<open>
  \<^verbatim>\<open>gameStartTime ? Math.floor((Date.now() - gameStartTime) / 1000) : 0\<close>: the number 0
  is falsy, as \<^verbatim>\<open>null\<close> is.
\<close>

definition gameDuration :: "int option \<Rightarrow> int \<Rightarrow> int" where
  "gameDuration start now =
     (case start of
        None \<Rightarrow> 0
      | Some t \<Rightarrow> if t \<noteq> 0 then (now - t) div 1000 else 0)"

text \<open>
  \<^verbatim>\<open>simulateGameOver\<close>, with the \<^verbatim>\<open>user\<close> prop of the component; \<open>rnd\<close> is the value
  of \<^verbatim>\<open>Math.floor(Math.random() * 10000)\<close> and \<open>now\<close> that of \<^verbatim>\<open>Date.now()\<close>. The
  result is the error the returned promise rejects with, if any.
\<close>

definition simulateGameOver ::
  "net \<Rightarrow> jsval \<Rightarrow> int \<Rightarrow> int \<Rightarrow> 'a game_scheme \<Rightarrow> error option \<times> 'a game_scheme" where
  "simulateGameOver net user_prop rnd now s =
     (let s1 = s\<lparr>gameOver := True, isPlaying := False\<rparr>;
          finalScore = rnd + 1000;
          s2 = s1\<lparr>score := finalScore\<rparr>;
          duration = gameDuration (gameStartTime s) now
      in case js_and (Inr user_prop) (get_prop user_prop ''id'') of
           Inl e \<Rightarrow> (Some e, s2)
         | Inr c \<Rightarrow>
             if truthy c then
               (case obj_lit [(''user_id'', get_prop user_prop ''id''),
                              (''score'', Inr (JNum finalScore)),
                              (''game_duration'', Inr (JNum duration))] of
                  Inl e \<Rightarrow> (None, console_out Error ''Failed to submit score:'' s2)
                | Inr body \<Rightarrow>
                    (case http net (PostScores body) s2 of
                       (Inl e, s3) \<Rightarrow> (None, console_out Error ''Failed to submit score:'' s3)
                     | (Inr ack, s3) \<Rightarrow> (None, console_out Log ''Score submitted successfully'' s3)))
             else (None, s2))"

text \<open>
  The buttons \<^verbatim>\<open>BlockBlastGame\<close> renders, each as the handler its \<^verbatim>\<open>onClick\<close> is bound
  to, in document order: the start button of the \<^verbatim>\<open>game-start\<close> block, nothing in the
  \<^verbatim>\<open>game-playing\<close> block (an iframe), the restart button of the \<^verbatim>\<open>game-over\<close> block.
\<close>

datatype handler = StartGame | SimulateGameOver

definition BlockBlastGame_buttons :: "'a game_scheme \<Rightarrow> handler list" where
  "BlockBlastGame_buttons s =
     (if \<not> isPlaying s \<and> \<not> gameOver s then [StartGame] else []) @
     (if isPlaying s then [] else []) @
     (if gameOver s then [StartGame] else [])"

text \<open>A post to \<^verbatim>\<open>/scores\<close>.\<close>

fun is_score_post :: "request \<Rightarrow> bool" where
  "is_score_post (PostScores body) = True"
| "is_score_post r = False"

definition score_submissions :: "'a io_scheme \<Rightarrow> nat" where
  "score_submissions s = length (filter is_score_post (requests s))"

section \<open>App: tabs, panels and the rank overlay\<close>

text \<open>The five panel components, and the \<^verbatim>\<open>tabs\<close> table of \<^verbatim>\<open>App\<close> (the id and the
  component of each entry).\<close>

datatype component = DuelsTab | LeadersTab | BlockBlastGame | ShopTab | ProfileTab

definition tabs :: "(string \<times> component) list" where
  "tabs =
     [(''duels'', DuelsTab), (''leaders'', LeadersTab), (''game'', BlockBlastGame),
      (''shop'', ShopTab), (''profile'', ProfileTab)]"

text \<open>\<^verbatim>\<open>tabs.find(tab => tab.id === activeTab)?.component || BlockBlastGame\<close>\<close>

definition ActiveComponent :: "app \<Rightarrow> component" where
  "ActiveComponent s =
     (case find (\<lambda>tab. fst tab = activeTab s) tabs of
        None \<Rightarrow> BlockBlastGame
      | Some tab \<Rightarrow> snd tab)"

definition setActiveTab :: "string \<Rightarrow> app \<Rightarrow> app" where
  "setActiveTab tid s = s\<lparr>activeTab := tid\<rparr>"

text \<open>
  \<^verbatim>\<open>PlayerRankOverlay\<close>: \<open>None\<close> when it returns \<^verbatim>\<open>null\<close>, otherwise what it shows: the
  avatar image (when \<^verbatim>\<open>userStats.avatar\<close> is truthy; the stock icon otherwise), the user
  name and the rank.
\<close>

record overlay =
  ov_avatar :: "jsval option"
  ov_username :: jsval
  ov_rank :: jsval

definition PlayerRankOverlay :: "jsval \<Rightarrow> jsval \<Rightarrow> string \<Rightarrow> error + overlay option" where
  "PlayerRankOverlay user_prop stats tab =
     (let showOverlay = (tab \<noteq> ''profile'') in
      if \<not> truthy user_prop then Inr None
      else if \<not> truthy stats then Inr None
      else
        (case get_prop stats ''rank'' of
           Inl e \<Rightarrow> Inl e
         | Inr r \<Rightarrow>
             if r = JNum 0 then Inr None
             else if \<not> showOverlay then Inr None
             else
               (case get_prop stats ''avatar'' of
                  Inl e \<Rightarrow> Inl e
                | Inr a \<Rightarrow>
                    (case get_prop stats ''username'' of
                       Inl e \<Rightarrow> Inl e
                     | Inr n \<Rightarrow>
                         Inr (Some \<lparr>ov_avatar = (if truthy a then Some a else None),
                                    ov_username = n, ov_rank = r\<rparr>)))))"

text \<open>
  What \<^verbatim>\<open>App\<close> renders: the loading screen, or the active panel (with its props
  \<^verbatim>\<open>user\<close> and \<^verbatim>\<open>activeTab\<close>), the overlay if it shows, and one navigation button per
  tab (its id, and whether it carries the class \<^verbatim>\<open>active\<close>); the button of tab \<open>t\<close>
  calls \<^verbatim>\<open>setActiveTab(t)\<close>.
\<close>

datatype element =
    LoadingScreen
  | Panel component jsval string
  | Overlay overlay
  | NavButton string bool

definition App_render :: "app \<Rightarrow> error + element list" where
  "App_render s =
     (if isLoading s then Inr [LoadingScreen]
      else
        (case PlayerRankOverlay (user s) (userStats s) (activeTab s) of
           Inl e \<Rightarrow> Inl e
         | Inr ov \<Rightarrow>
             Inr ([Panel (ActiveComponent s) (user s) (activeTab s)] @
                  (case ov of None \<Rightarrow> [] | Some v \<Rightarrow> [Overlay v]) @
                  map (\<lambda>tab. NavButton (fst tab) (activeTab s = fst tab)) tabs)))"

text \<open>The panel components among rendered elements, and the tab ids the rendered
  navigation buttons pass to \<^verbatim>\<open>setActiveTab\<close>.\<close>

fun panels :: "element list \<Rightarrow> component list" where
  "panels [] = []"
| "panels (Panel c u t # es) = c # panels es"
| "panels (e # es) = panels es"

fun nav_targets :: "element list \<Rightarrow> string list" where
  "nav_targets [] = []"
| "nav_targets (NavButton t a # es) = t # nav_targets es"
| "nav_targets (e # es) = nav_targets es"

section \<open>LeadersTab and ProfileTab: fetch on mount\<close>

text \<open>The state of \<^verbatim>\<open>LeadersTab\<close>: the \<^verbatim>\<open>leaders\<close> and \<^verbatim>\<open>loading\<close> cells.\<close>

record leaders_tab = io +
  leaders :: jsval
  leaders_loading :: bool

definition LeadersTab_init :: leaders_tab where
  "LeadersTab_init = \<lparr>requests = [], console = [], leaders = JArr [], leaders_loading = True\<rparr>"

definition mock_leader :: "string \<Rightarrow> string \<Rightarrow> int \<Rightarrow> int \<Rightarrow> string \<Rightarrow> jsval" where
  "mock_leader uid name best r photo =
     JObj [(''user_id'', JStr uid), (''username'', JStr name), (''best_score'', JNum best),
           (''rank'', JNum r), (''photo_url'', JStr photo)]"

definition mock_leaders :: jsval where
  "mock_leaders =
     JArr
      [mock_leader ''1'' ''ProGamer'' 15420 1 ''https://via.placeholder.com/40/FFD700/FFFFFF?text=P'',
       mock_leader ''2'' ''BlockMaster'' 12890 2 ''https://via.placeholder.com/40/C0C0C0/FFFFFF?text=B'',
       mock_leader ''3'' ''PuzzleKing'' 11230 3 ''https://via.placeholder.com/40/CD7F32/FFFFFF?text=P'',
       mock_leader ''4'' ''GameHero'' 9870 4 ''https://via.placeholder.com/40/AAAAAA/FFFFFF?text=G'',
       mock_leader ''5'' ''BlastExpert'' 8450 5 ''https://via.placeholder.com/40/DDDDDD/FFFFFF?text=B'']"

text \<open>\<^verbatim>\<open>fetchLeaders\<close>: \<^verbatim>\<open>try\<close>, \<^verbatim>\<open>catch\<close> and \<^verbatim>\<open>finally\<close>.\<close>

definition fetchLeaders :: "net \<Rightarrow> leaders_tab \<Rightarrow> error option \<times> leaders_tab" where
  "fetchLeaders net s =
     (let (r, s2) =
        (case http net GetLeaderboard s of
           (Inr data, s1) \<Rightarrow> (None, s1\<lparr>leaders := data\<rparr>)
         | (Inl e, s1) \<Rightarrow>
             (None, (console_out Error ''Failed to fetch leaderboard:'' s1)\<lparr>leaders := mock_leaders\<rparr>))
      in (r, s2\<lparr>leaders_loading := False\<rparr>))"

text \<open>
  One rendered row of the list: its key (\<^verbatim>\<open>user_id\<close>), the rank, the avatar image if
  \<^verbatim>\<open>photo_url\<close> is truthy, the user name and the score. Which icon or number stands for
  the rank, and the locale format of the score, are left out. Reading a field of a
  \<^verbatim>\<open>null\<close> entry, or calling \<^verbatim>\<open>toLocaleString\<close> on a missing score, throws.
\<close>

record leader_row =
  row_key :: jsval
  row_rank :: jsval
  row_photo :: "jsval option"
  row_username :: jsval
  row_score :: jsval

definition render_leader :: "jsval \<Rightarrow> error + leader_row" where
  "render_leader leader =
     (case get_prop leader ''user_id'' of Inl e \<Rightarrow> Inl e | Inr k \<Rightarrow>
      case get_prop leader ''rank'' of Inl e \<Rightarrow> Inl e | Inr r \<Rightarrow>
      case get_prop leader ''photo_url'' of Inl e \<Rightarrow> Inl e | Inr p \<Rightarrow>
      case get_prop leader ''username'' of Inl e \<Rightarrow> Inl e | Inr n \<Rightarrow>
      case get_prop leader ''best_score'' of Inl e \<Rightarrow> Inl e | Inr b \<Rightarrow>
        if nullish b then Inl TypeError
        else Inr \<lparr>row_key = k, row_rank = r, row_photo = (if truthy p then Some p else None),
                  row_username = n, row_score = b\<rparr>)"

fun render_all :: "jsval list \<Rightarrow> error + leader_row list" where
  "render_all [] = Inr []"
| "render_all (x # xs) =
     (case render_leader x of
        Inl e \<Rightarrow> Inl e
      | Inr row \<Rightarrow> (case render_all xs of Inl e \<Rightarrow> Inl e | Inr rows \<Rightarrow> Inr (row # rows)))"

text \<open>What \<^verbatim>\<open>LeadersTab\<close> renders: the loading indicator, or the rows of
  \<^verbatim>\<open>leaders.slice(0, 50)\<close>; a value that is no array has no such rows.\<close>

datatype leaders_view = LeadersLoading | LeadersList "leader_row list"

definition LeadersTab_render :: "leaders_tab \<Rightarrow> error + leaders_view" where
  "LeadersTab_render s =
     (if leaders_loading s then Inr LeadersLoading
      else
        (case leaders s of
           JArr xs \<Rightarrow>
             (case render_all (take 50 xs) of Inl e \<Rightarrow> Inl e | Inr rows \<Rightarrow> Inr (LeadersList rows))
         | _ \<Rightarrow> Inl TypeError))"

text \<open>The state of \<^verbatim>\<open>ProfileTab\<close>: its own \<^verbatim>\<open>userStats\<close> and \<^verbatim>\<open>loading\<close> cells.\<close>

record profile_tab = io +
  profile_stats :: jsval
  profile_loading :: bool

definition ProfileTab_init :: profile_tab where
  "ProfileTab_init =
     \<lparr>requests = [], console = [],
      profile_stats = JObj [(''username'', JStr ''Player''), (''avatar'', JNull),
        (''bestScore'', JNum 0), (''gamesPlayed'', JNum 0), (''totalScore'', JNum 0),
        (''rank'', JNum 0)],
      profile_loading = True\<rparr>"

text \<open>The object literal of the \<^verbatim>\<open>catch\<close> block of \<^verbatim>\<open>ProfileTab\<close>.\<close>

definition fallback_stats :: "jsval \<Rightarrow> error + jsval" where
  "fallback_stats u =
     obj_lit
       [(''username'',
           js_or (get_prop u ''username'')
             (js_or (get_prop u ''first_name'')
                (template [Inl ''ID: '', Inr (get_prop u ''telegram_id'')]))),
        (''avatar'', get_prop u ''photo_url''),
        (''bestScore'', js_or (get_prop u ''best_score'') (Inr (JNum 0))),
        (''gamesPlayed'', js_or (get_prop u ''games_played'') (Inr (JNum 0))),
        (''totalScore'', js_or (get_prop u ''total_score'') (Inr (JNum 0))),
        (''rank'', Inr (JNum 0))]"

text \<open>The \<^verbatim>\<open>try\<close> block of \<^verbatim>\<open>fetchUserStats\<close> in \<^verbatim>\<open>ProfileTab\<close>.\<close>

definition fetchUserStats_try :: "net \<Rightarrow> jsval \<Rightarrow> profile_tab \<Rightarrow> error option \<times> profile_tab" where
  "fetchUserStats_try net user_prop s =
     (case get_prop user_prop ''id'' of
        Inl e \<Rightarrow> (Some e, s)
      | Inr uid \<Rightarrow>
          (case http net (GetStats (to_str uid)) s of
             (Inl e, s1) \<Rightarrow> (Some e, s1)
           | (Inr data, s1) \<Rightarrow>
               (case merged_stats user_prop data of
                  Inl e \<Rightarrow> (Some e, s1)
                | Inr st \<Rightarrow> (None, s1\<lparr>profile_stats := st\<rparr>))))"

text \<open>\<^verbatim>\<open>fetchUserStats\<close> of \<^verbatim>\<open>ProfileTab\<close>, with the \<^verbatim>\<open>user\<close> prop. An error thrown
  outside the \<^verbatim>\<open>try\<close> block, or inside the \<^verbatim>\<open>catch\<close> block, rejects the promise
  before \<^verbatim>\<open>setLoading(false)\<close>.\<close>

definition fetchUserStats :: "net \<Rightarrow> jsval \<Rightarrow> profile_tab \<Rightarrow> error option \<times> profile_tab" where
  "fetchUserStats net user_prop s =
     (case js_and (Inr user_prop) (get_prop user_prop ''id'') of
        Inl e \<Rightarrow> (Some e, s)
      | Inr c \<Rightarrow>
          if truthy c then
            (case fetchUserStats_try net user_prop s of
               (None, s1) \<Rightarrow> (None, s1\<lparr>profile_loading := False\<rparr>)
             | (Some e, s1) \<Rightarrow>
                 (case fallback_stats user_prop of
                    Inl e' \<Rightarrow> (Some e', console_out Error ''Failed to fetch user stats:'' s1)
                  | Inr st \<Rightarrow>
                      (None, (console_out Error ''Failed to fetch user stats:'' s1)
                               \<lparr>profile_stats := st, profile_loading := False\<rparr>)))
          else (None, s\<lparr>profile_loading := False\<rparr>))"

text \<open>A user record with known statistics, for the examples below.\<close>

definition sample_user :: jsval where
  "sample_user =
     JObj [(''id'', JStr ''u1''), (''username'', JStr ''alice''), (''best_score'', JNum 100),
           (''games_played'', JNum 3), (''total_score'', JNum 250)]"

section \<open>BlockBlastGame, first revision: the poll for the game-over text\<close>

text \<open>
  \<^verbatim>\<open>App.js\<close> holds two revisions of the application, one after the other. In the first
  one (also the unnamed source part) \<^verbatim>\<open>BlockBlastGame\<close> has the same \<^verbatim>\<open>startGame\<close> and
  \<^verbatim>\<open>simulateGameOver\<close>, a button that calls \<^verbatim>\<open>simulateGameOver\<close> while playing, and
  an effect with the dependencies \<^verbatim>\<open>[isPlaying, gameStartTime]\<close> that polls the page
  every 500 ms.

  An interval registered with \<^verbatim>\<open>setInterval\<close> and not yet cleared is a \<open>timer\<close>: its
  handle, and the values of \<^verbatim>\<open>isPlaying\<close> and \<^verbatim>\<open>gameStartTime\<close> its callback closed
  over. The panel is the game session together with: whether the component is mounted,
  the intervals that are active, the handle the pending cleanup of the effect will clear,
  and the handle the next \<^verbatim>\<open>setInterval\<close> returns.
\<close>

record timer =
  timer_id :: nat
  sees_isPlaying :: bool
  sees_gameStartTime :: "int option"

record poll_panel = game +
  mounted :: bool
  intervals :: "timer list"
  cleanup :: "nat option"
  next_interval :: nat

definition poll_panel_init :: poll_panel where
  "poll_panel_init =
     \<lparr>requests = [], console = [], score = 0, gameOver = False, isPlaying = False,
      gameStartTime = None, mounted = False, intervals = [], cleanup = None, next_interval = 0\<rparr>"

text \<open>The body of the effect: \<^verbatim>\<open>const interval = setInterval(..., 500)\<close>, and the
  cleanup it returns.\<close>

definition poll_effect :: "poll_panel \<Rightarrow> poll_panel" where
  "poll_effect s =
     s\<lparr>intervals := intervals s @
          [\<lparr>timer_id = next_interval s, sees_isPlaying = isPlaying s,
            sees_gameStartTime = gameStartTime s\<rparr>],
       cleanup := Some (next_interval s),
       next_interval := next_interval s + 1\<rparr>"

text \<open>The cleanup: \<^verbatim>\<open>clearInterval(interval)\<close>.\<close>

definition poll_cleanup :: "poll_panel \<Rightarrow> poll_panel" where
  "poll_cleanup s =
     (case cleanup s of
        None \<Rightarrow> s
      | Some i \<Rightarrow> s\<lparr>intervals := filter (\<lambda>t. timer_id t \<noteq> i) (intervals s), cleanup := None\<rparr>)"

text \<open>
  When React runs them: the effect after the component mounts (with the initial values of
  its cells); the cleanup and then the effect again after a render in which a dependency
  changed; the cleanup when the component unmounts.
\<close>

definition mount :: "poll_panel \<Rightarrow> poll_panel" where
  "mount s =
     poll_effect (s\<lparr>score := 0, gameOver := False, isPlaying := False, gameStartTime := None,
                    mounted := True\<rparr>)"

definition commit :: "poll_panel \<Rightarrow> poll_panel \<Rightarrow> poll_panel" where
  "commit old new =
     (if mounted new \<and> (isPlaying new \<noteq> isPlaying old \<or> gameStartTime new \<noteq> gameStartTime old)
      then poll_effect (poll_cleanup new)
      else new)"

definition unmount :: "poll_panel \<Rightarrow> poll_panel" where
  "unmount s = (poll_cleanup s)\<lparr>mounted := False\<rparr>"

text \<open>The buttons of the first revision: start, end of game while playing, restart.\<close>

definition BlockBlastGame_buttons_v1 :: "'a game_scheme \<Rightarrow> handler list" where
  "BlockBlastGame_buttons_v1 s =
     (if \<not> isPlaying s \<and> \<not> gameOver s then [StartGame] else []) @
     (if isPlaying s then [SimulateGameOver] else []) @
     (if gameOver s then [StartGame] else [])"

text \<open>
  The callback of the interval, run with the values \<open>t\<close> closed over: \<open>marker\<close> tells
  whether \<^verbatim>\<open>document.body.textContent\<close> includes the text \<^verbatim>\<open>No Space Left\<close>, and
  \<open>shown\<close> is what \<^verbatim>\<open>readScoreFromScreen()\<close> returns.
\<close>

definition poll_callback ::
  "net \<Rightarrow> jsval \<Rightarrow> timer \<Rightarrow> bool \<Rightarrow> int \<Rightarrow> int \<Rightarrow> int \<Rightarrow> poll_panel \<Rightarrow> poll_panel" where
  "poll_callback net user_prop t marker shown rnd now s =
     (if sees_isPlaying t then
        (if marker then
           (snd (simulateGameOver net user_prop rnd now
                   (s\<lparr>score := shown, gameStartTime := sees_gameStartTime t\<rparr>)))
             \<lparr>gameStartTime := gameStartTime s\<rparr>
         else s)
      else s)"

text \<open>
  What can happen to the panel: it mounts, a rendered button is clicked, an active
  interval fires, it unmounts. The numbers are the values of \<^verbatim>\<open>Date.now()\<close> and of the
  random draw at that moment.
\<close>

datatype event =
    Mount
  | Click handler int int
  | Tick nat bool int int int
  | Unmount

definition perform :: "net \<Rightarrow> jsval \<Rightarrow> handler \<Rightarrow> int \<Rightarrow> int \<Rightarrow> poll_panel \<Rightarrow> poll_panel" where
  "perform net user_prop h now rnd s =
     (case h of
        StartGame \<Rightarrow> startGame now s
      | SimulateGameOver \<Rightarrow> snd (simulateGameOver net user_prop rnd now s))"

definition step :: "net \<Rightarrow> jsval \<Rightarrow> event \<Rightarrow> poll_panel \<Rightarrow> poll_panel" where
  "step net user_prop ev s =
     (case ev of
        Mount \<Rightarrow> if mounted s then s else mount s
      | Click h now rnd \<Rightarrow>
          if mounted s \<and> h \<in> set (BlockBlastGame_buttons_v1 s)
          then commit s (perform net user_prop h now rnd s)
          else s
      | Tick i marker shown rnd now \<Rightarrow>
          (case find (\<lambda>t. timer_id t = i) (intervals s) of
             None \<Rightarrow> s
           | Some t \<Rightarrow> commit s (poll_callback net user_prop t marker shown rnd now s))
      | Unmount \<Rightarrow> if mounted s then unmount s else s)"

fun run :: "net \<Rightarrow> jsval \<Rightarrow> event list \<Rightarrow> poll_panel \<Rightarrow> poll_panel" where
  "run net user_prop [] s = s"
| "run net user_prop (ev # evs) s = run net user_prop evs (step net user_prop ev s)"

text \<open>The timers of a panel are in order when, mounted, exactly one interval is active,
  it is the one the pending cleanup will clear, its handle is not one a later
  \<^verbatim>\<open>setInterval\<close> returns, and its callback sees the current values of the
  dependencies; and, unmounted, none is active.\<close>

definition timers_in_order :: "poll_panel \<Rightarrow> bool" where
  "timers_in_order s =
     (if mounted s then
        (case cleanup s of
           None \<Rightarrow> False
         | Some i \<Rightarrow>
             i < next_interval s \<and>
             intervals s = [\<lparr>timer_id = i, sees_isPlaying = isPlaying s,
                              sees_gameStartTime = gameStartTime s\<rparr>])
      else intervals s = [] \<and> cleanup s = None)"

section \<open>Properties of the session bootstrap\<close>

subsection \<open>Reading properties\<close>

lemma get_prop_total: "\<not> nullish u \<Longrightarrow> \<exists>v. get_prop u k = Inr v"
  by (cases u) auto

lemma truthy_not_nullish: "truthy u \<Longrightarrow> \<not> nullish u"
  by (cases u) auto

lemma user_and_id_total:
  "\<exists>c. js_and (Inr u) (get_prop u ''id'') = Inr c"
  by (cases u) (auto simp: js_and_def)

lemma user_and_id_truthy:
  "js_and (Inr u) (get_prop u ''id'') = Inr c \<Longrightarrow>
     truthy c = (truthy u \<and> (\<exists>v. get_prop u ''id'' = Inr v \<and> truthy v))"
  by (cases u) (auto simp: js_and_def split: if_splits)

subsection \<open>Every run installs a user and its statistics\<close>

lemma obj_lit_not_nullish: "obj_lit fs = Inr v \<Longrightarrow> \<not> nullish v"
  by (induction fs arbitrary: v rule: obj_lit.induct) (auto split: sum.splits jsval.splits)

lemma merged_stats_not_nullish: "merged_stats u r = Inr st \<Longrightarrow> \<not> nullish st"
  unfolding merged_stats_def by (rule obj_lit_not_nullish)

lemma get_prop_not_nullish: "get_prop v k = Inr x \<Longrightarrow> \<not> nullish v"
  by (cases v) auto

lemma createDemoUser_try_ok:
  "createDemoUser_try net rnd s = (None, s') \<Longrightarrow> \<not> nullish (user s') \<and> \<not> nullish (userStats s')"
  by (auto simp: createDemoUser_try_def http_def console_out_def Let_def
      split: sum.splits prod.splits dest: merged_stats_not_nullish get_prop_not_nullish)

lemma createDemoUser_result:
  "fst (createDemoUser net rnd s) = None \<and>
   \<not> nullish (user (snd (createDemoUser net rnd s))) \<and>
   \<not> nullish (userStats (snd (createDemoUser net rnd s)))"
  using createDemoUser_try_ok [of net rnd s]
  by (auto simp: createDemoUser_def localDemoUser_def localDemoStats_def
      split: prod.splits option.splits)


lemma createDemoUser_eq:
  "createDemoUser net rnd s = (r, s') \<Longrightarrow>
     r = None \<and> \<not> nullish (user s') \<and> \<not> nullish (userStats s')"
  using createDemoUser_result [of net rnd s] by simp










subsection \<open>The demo-identity path after a failure of the real identity\<close>

lemma createDemoUser_try_attempts:
  "demo_attempts (snd (createDemoUser_try net rnd s)) = demo_attempts s + 1"
  by (auto simp: createDemoUser_try_def http_def console_out_def demo_attempts_def Let_def
      split: sum.splits prod.splits)

lemma createDemoUser_attempts:
  "demo_attempts (snd (createDemoUser net rnd s)) = demo_attempts s + 1"
  using createDemoUser_try_attempts [of net rnd s]
  by (auto simp: createDemoUser_def console_out_def demo_attempts_def
      split: prod.splits option.splits)

lemma createDemoUser_post_fails:
  assumes "isl (net (length (requests s)) (PostUsers (demoUser rnd) None))"
  shows "user (snd (createDemoUser net rnd s)) = localDemoUser \<and>
         userStats (snd (createDemoUser net rnd s)) = localDemoStats"
proof -
  from assms obtain e where "net (length (requests s)) (PostUsers (demoUser rnd) None) = Inl e"
    by (auto simp: isl_def)
  then show ?thesis
    by (simp add: createDemoUser_def createDemoUser_try_def http_def console_out_def)
qed

lemma initializeApp_real_post_fails:
  assumes "js_or (Inr (initData h)) (Inr (JStr [])) = Inr hdr"
    and "isl (net (length (requests s)) (PostUsers body (Some hdr)))"
  shows "\<exists>e. initializeApp_real net h body s =
           (Some e, s\<lparr>requests := requests s @ [PostUsers body (Some hdr)]\<rparr>)"
proof -
  from assms(2) obtain e where "net (length (requests s)) (PostUsers body (Some hdr)) = Inl e"
    by (auto simp: isl_def)
  with assms(1) show ?thesis
    by (simp add: initializeApp_real_def http_def)
qed

lemma initializeApp_real_identity_fails:
  assumes tg: "tg = Some h" "truthy (host_user tg)" "\<not> ready_throws h" "\<not> expand_throws h"
    and body: "userData (host_user tg) = Inr body"
    and hdr: "js_or (Inr (initData h)) (Inr (JStr [])) = Inr hdr"
    and fails: "isl (net (length (requests s)) (PostUsers body (Some hdr)))"
  shows "initializeApp net rnd rnd' tg s =
           (let (r, s1) = createDemoUser net rnd
               (console_out Error ''Failed to initialize Telegram user:''
                 ((console_out Log ''Sending userData to backend:'' s)
                    \<lparr>requests := requests s @ [PostUsers body (Some hdr)]\<rparr>))
            in (r, s1\<lparr>loadingTimeouts := loadingTimeouts s1 + 1\<rparr>))"
proof -
  let ?s0 = "console_out Log ''Sending userData to backend:'' s"
  have "isl (net (length (requests ?s0)) (PostUsers body (Some hdr)))"
    using fails by (simp add: console_out_def)
  with hdr initializeApp_real_post_fails [where h = h and hdr = hdr and net = net and s = ?s0 and body = body]
  obtain e where e: "initializeApp_real net h body ?s0 =
      (Some e, ?s0\<lparr>requests := requests ?s0 @ [PostUsers body (Some hdr)]\<rparr>)" by blast
  have r: "requests ?s0 = requests s" by (simp add: console_out_def)
  obtain r2 s2 where c: "createDemoUser net rnd
               (console_out Error ''Failed to initialize Telegram user:''
                 (?s0\<lparr>requests := requests s @ [PostUsers body (Some hdr)]\<rparr>)) = (r2, s2)"
    by (cases "createDemoUser net rnd
               (console_out Error ''Failed to initialize Telegram user:''
                 (?s0\<lparr>requests := requests s @ [PostUsers body (Some hdr)]\<rparr>))") auto
  from createDemoUser_eq [OF c] have "r2 = None" by simp
  with tg body e r c show ?thesis
    by (simp add: initializeApp_def initializeApp_try_def)
qed

lemma merged_stats_total:
  assumes "\<not> nullish u" "\<not> nullish r"
  shows "\<exists>st. merged_stats u r = Inr st"
proof -
  obtain a b c d e f g where
    "get_prop u ''username'' = Inr a" "get_prop u ''first_name'' = Inr b"
    "get_prop u ''telegram_id'' = Inr c" "get_prop u ''photo_url'' = Inr d"
    "get_prop u ''best_score'' = Inr e" "get_prop u ''games_played'' = Inr f"
    "get_prop u ''total_score'' = Inr g"
    using get_prop_total [OF assms(1)] by metis
  moreover obtain h where "get_prop r ''rank'' = Inr h"
    using get_prop_total [OF assms(2)] by blast
  ultimately show ?thesis
    by (simp add: merged_stats_def js_or_def)
qed

lemma merged_stats_null_rank:
  assumes "\<not> nullish u" "nullish r"
  shows "\<exists>e. merged_stats u r = Inl e"
proof -
  obtain a b c d e f g where
    "get_prop u ''username'' = Inr a" "get_prop u ''first_name'' = Inr b"
    "get_prop u ''telegram_id'' = Inr c" "get_prop u ''photo_url'' = Inr d"
    "get_prop u ''best_score'' = Inr e" "get_prop u ''games_played'' = Inr f"
    "get_prop u ''total_score'' = Inr g"
    using get_prop_total [OF assms(1)] by metis
  moreover have "get_prop r ''rank'' = Inl TypeError"
    using assms(2) by (cases r) auto
  ultimately show ?thesis
    by (simp add: merged_stats_def js_or_def)
qed

lemma demo_attempt_fails_iff:
  "(fst (createDemoUser_try net rnd s) \<noteq> None) = demo_attempt_fails net (length (requests s)) rnd"
proof (cases "net (length (requests s)) (PostUsers (demoUser rnd) None)")
  case (Inl e)
  then show ?thesis
    by (simp add: createDemoUser_try_def demo_attempt_fails_def http_def)
next
  case (Inr data)
  show ?thesis
  proof (cases "get_prop data ''id''")
    case (Inl e)
    with Inr show ?thesis
      by (simp add: createDemoUser_try_def demo_attempt_fails_def http_def)
  next
    case uid: (Inr uid)
    then have nd: "\<not> nullish data" by (rule get_prop_not_nullish)
    show ?thesis
    proof (cases "net (length (requests s) + 1) (GetStats (to_str uid))")
      case (Inl e)
      with Inr uid show ?thesis
        by (simp add: createDemoUser_try_def demo_attempt_fails_def http_def)
    next
      case sd: (Inr sdata)
      show ?thesis
      proof (cases "nullish sdata")
        case True
        from merged_stats_null_rank [OF nd True] obtain e where "merged_stats data sdata = Inl e" ..
        with Inr uid sd True show ?thesis
          by (simp add: createDemoUser_try_def demo_attempt_fails_def http_def)
      next
        case False
        from merged_stats_total [OF nd False] obtain st where "merged_stats data sdata = Inr st" ..
        with Inr uid sd False show ?thesis
          by (simp add: createDemoUser_try_def demo_attempt_fails_def http_def)
      qed
    qed
  qed
qed

lemma createDemoUser_fallback:
  assumes "demo_attempt_fails net (length (requests s)) rnd"
  shows "user (snd (createDemoUser net rnd s)) = localDemoUser \<and>
         userStats (snd (createDemoUser net rnd s)) = localDemoStats"
proof -
  from assms demo_attempt_fails_iff [of net rnd s]
  obtain e s1 where "createDemoUser_try net rnd s = (Some e, s1)"
    by (cases "createDemoUser_try net rnd s") auto
  then show ?thesis
    by (simp add: createDemoUser_def console_out_def)
qed

lemma refresh_local_user:
  assumes "user s = localDemoUser" "userStats s = localDemoStats"
  shows "fst (refreshUserStats net s) = None \<and>
         user (snd (refreshUserStats net s)) = localDemoUser \<and>
         requests (snd (refreshUserStats net s)) = requests s @ [GetStats ''demo-user''] \<and>
         get_prop (userStats (snd (refreshUserStats net s))) ''bestScore'' = Inr (JNum 0) \<and>
         get_prop (userStats (snd (refreshUserStats net s))) ''gamesPlayed'' = Inr (JNum 0) \<and>
         get_prop (userStats (snd (refreshUserStats net s))) ''totalScore'' = Inr (JNum 0) \<and>
         get_prop (userStats (snd (refreshUserStats net s))) ''rank'' =
           (case net (length (requests s)) (GetStats ''demo-user'') of
              Inl e \<Rightarrow> Inr (JNum 0)
            | Inr data \<Rightarrow>
                (case get_prop data ''rank'' of Inl e \<Rightarrow> Inr (JNum 0) | Inr r \<Rightarrow> Inr r))"
proof (cases "net (length (requests s)) (GetStats ''demo-user'')")
  case (Inl e)
  with assms show ?thesis
    by (simp add: refreshUserStats_def localDemoUser_def localDemoStats_def js_and_def http_def
        console_out_def)
next
  case (Inr data)
  show ?thesis
  proof (cases "get_prop data ''rank''")
    case (Inl e)
    with Inr assms show ?thesis
      by (simp add: refreshUserStats_def localDemoUser_def localDemoStats_def js_and_def http_def
          console_out_def merged_stats_def js_or_def)
  next
    case r: (Inr r)
    with Inr assms show ?thesis
      by (simp add: refreshUserStats_def localDemoUser_def localDemoStats_def js_and_def http_def
          console_out_def merged_stats_def js_or_def)
  qed
qed

lemma refresh_attempts:
  "demo_attempts (snd (refreshUserStats net s)) = demo_attempts s"
proof -
  obtain c where c: "js_and (Inr (user s)) (get_prop (user s) ''id'') = Inr c"
    using user_and_id_total by blast
  then show ?thesis
    by (cases "get_prop (user s) ''id''")
       (auto simp: refreshUserStats_def http_def console_out_def demo_attempts_def
          split: prod.splits sum.splits)
qed

lemma createDemoUser_post_rejected:
  assumes "isl (net (length (requests s)) (PostUsers (demoUser rnd) None))"
  shows "requests (snd (createDemoUser net rnd s)) = requests s @ [PostUsers (demoUser rnd) None]"
proof -
  from assms obtain e where "net (length (requests s)) (PostUsers (demoUser rnd) None) = Inl e"
    by (auto simp: isl_def)
  then show ?thesis
    by (simp add: createDemoUser_def createDemoUser_try_def http_def console_out_def)
qed

text \<open>
  Claim C2, as stated, fails for the statistics that result. When both posts to
  \<^verbatim>\<open>/users\<close> are rejected, \<^verbatim>\<open>createDemoUser\<close> installs the local user
  \<^verbatim>\<open>{id: 'demo-user', ...}\<close>; that change of \<^verbatim>\<open>user\<close> makes the effect on \<^verbatim>\<open>[user]\<close>
  fetch the rank of \<^verbatim>\<open>demo-user\<close>, and with a backend that answers \<^verbatim>\<open>{rank: 9}\<close> the
  statistics end with rank 9, not 0.
\<close>

theorem demo_path_attempted_once_counterexample:
  "isl (posts_rejected_net 0
     (PostUsers (JObj [(''telegram_id'', JNum 42), (''username'', JStr ''alice''),
         (''first_name'', JUndefined), (''last_name'', JUndefined), (''photo_url'', JUndefined)])
       (Some (JStr ''tok'')))) \<and>
   isl (posts_rejected_net 1 (PostUsers (demoUser 5) None)) \<and>
   requests (snd (initializeApp posts_rejected_net 5 6 (Some (scenario_host (JStr ''tok''))) App_init)) =
     [PostUsers (JObj [(''telegram_id'', JNum 42), (''username'', JStr ''alice''),
         (''first_name'', JUndefined), (''last_name'', JUndefined), (''photo_url'', JUndefined)])
       (Some (JStr ''tok'')),
      PostUsers (demoUser 5) None] \<and>
   user (snd (initializeApp posts_rejected_net 5 6 (Some (scenario_host (JStr ''tok''))) App_init)) =
     localDemoUser \<and>
   get_prop (userStats (snd (refreshUserStats posts_rejected_net
      (snd (initializeApp posts_rejected_net 5 6 (Some (scenario_host (JStr ''tok''))) App_init)))))
     ''rank'' = Inr (JNum 9) \<and>
   get_prop (userStats (snd (refreshUserStats posts_rejected_net
      (snd (initializeApp posts_rejected_net 5 6 (Some (scenario_host (JStr ''tok''))) App_init)))))
     ''rank'' \<noteq> Inr (JNum 0)"
  by (simp add: posts_rejected_net_def scenario_host_def initializeApp_def initializeApp_try_def
      initializeApp_real_def host_user_def userData_def createDemoUser_def createDemoUser_try_def
      refreshUserStats_def merged_stats_def js_or_def js_and_def http_def console_out_def
      App_init_def localDemoUser_def localDemoStats_def)

text \<open>
  Claim C2, amended. The host has an identity and the post of that identity to
  \<^verbatim>\<open>/users\<close> is rejected. Then \<^verbatim>\<open>initializeApp\<close> sends exactly one demo-identity
  post, and the effect on \<^verbatim>\<open>[user]\<close> sends none. If the demo attempt fails too, in any
  of its four ways, \<^verbatim>\<open>initializeApp\<close> returns with the local demo user and with
  statistics whose \<^verbatim>\<open>rank\<close>, \<^verbatim>\<open>bestScore\<close>, \<^verbatim>\<open>gamesPlayed\<close> and \<^verbatim>\<open>totalScore\<close> are
  all 0. If it was the demo post that was rejected, \<^verbatim>\<open>user\<close> changed only once, to
  the local user, and the one run of the effect that follows sends the rank fetch for
  \<^verbatim>\<open>demo-user\<close>, leaves the three counters at 0, and leaves the rank at 0 unless that
  fetch is answered with a value that has a \<^verbatim>\<open>rank\<close>, which then is the rank. (After
  an answered demo post a run of the effect for the answered user may still be in flight;
  nothing is said about the statistics after it.)
\<close>

theorem demo_path_attempted_once:
  assumes tg: "tg = Some h" "truthy (host_user tg)" "\<not> ready_throws h" "\<not> expand_throws h"
    and body: "userData (host_user tg) = Inr body"
    and hdr: "js_or (Inr (initData h)) (Inr (JStr [])) = Inr hdr"
    and fails: "isl (net (length (requests s)) (PostUsers body (Some hdr)))"
  shows "demo_attempts (snd (initializeApp net rnd rnd' tg s)) = demo_attempts s + 1 \<and>
         demo_attempts (snd (refreshUserStats net (snd (initializeApp net rnd rnd' tg s)))) =
           demo_attempts s + 1 \<and>
         (demo_attempt_fails net (length (requests s) + 1) rnd \<longrightarrow>
            user (snd (initializeApp net rnd rnd' tg s)) = localDemoUser \<and>
            userStats (snd (initializeApp net rnd rnd' tg s)) = localDemoStats \<and>
            get_prop (userStats (snd (initializeApp net rnd rnd' tg s))) ''rank'' = Inr (JNum 0) \<and>
            get_prop (userStats (snd (initializeApp net rnd rnd' tg s))) ''bestScore'' = Inr (JNum 0) \<and>
            get_prop (userStats (snd (initializeApp net rnd rnd' tg s))) ''gamesPlayed'' = Inr (JNum 0) \<and>
            get_prop (userStats (snd (initializeApp net rnd rnd' tg s))) ''totalScore'' = Inr (JNum 0)) \<and>
         (isl (net (length (requests s) + 1) (PostUsers (demoUser rnd) None)) \<longrightarrow>
            requests (snd (refreshUserStats net (snd (initializeApp net rnd rnd' tg s)))) =
              requests s @ [PostUsers body (Some hdr), PostUsers (demoUser rnd) None,
                            GetStats ''demo-user''] \<and>
            get_prop (userStats (snd (refreshUserStats net (snd (initializeApp net rnd rnd' tg s)))))
              ''bestScore'' = Inr (JNum 0) \<and>
            get_prop (userStats (snd (refreshUserStats net (snd (initializeApp net rnd rnd' tg s)))))
              ''gamesPlayed'' = Inr (JNum 0) \<and>
            get_prop (userStats (snd (refreshUserStats net (snd (initializeApp net rnd rnd' tg s)))))
              ''totalScore'' = Inr (JNum 0) \<and>
            get_prop (userStats (snd (refreshUserStats net (snd (initializeApp net rnd rnd' tg s)))))
              ''rank'' =
              (case net (length (requests s) + 2) (GetStats ''demo-user'') of
                 Inl e \<Rightarrow> Inr (JNum 0)
               | Inr data \<Rightarrow>
                   (case get_prop data ''rank'' of Inl e \<Rightarrow> Inr (JNum 0) | Inr r \<Rightarrow> Inr r)))"
proof -
  let ?s1 = "console_out Error ''Failed to initialize Telegram user:''
                 ((console_out Log ''Sending userData to backend:'' s)
                    \<lparr>requests := requests s @ [PostUsers body (Some hdr)]\<rparr>)"
  let ?c = "snd (createDemoUser net rnd ?s1)"
  let ?S = "snd (initializeApp net rnd rnd' tg s)"
  have eq: "?S = ?c\<lparr>loadingTimeouts := loadingTimeouts ?c + 1\<rparr>"
    using initializeApp_real_identity_fails [where net = net and rnd = rnd and rnd' = rnd' and s = s, OF assms]
    by (simp add: split_beta)
  have len: "length (requests ?s1) = length (requests s) + 1"
    by (simp add: console_out_def)
  have rq: "requests ?s1 = requests s @ [PostUsers body (Some hdr)]"
    by (simp add: console_out_def)
  have d: "demo_attempts ?s1 = demo_attempts s"
    by (simp add: console_out_def demo_attempts_def)
  have 1: "demo_attempts ?S = demo_attempts s + 1"
    using createDemoUser_attempts [of net rnd ?s1] d by (simp add: eq demo_attempts_def)
  have 2: "demo_attempts (snd (refreshUserStats net ?S)) = demo_attempts s + 1"
    using 1 by (simp add: refresh_attempts)
  have 3: "user ?S = localDemoUser \<and> userStats ?S = localDemoStats"
    if "demo_attempt_fails net (length (requests s) + 1) rnd"
    using createDemoUser_fallback [of net ?s1 rnd] that len by (simp add: eq)
  have 4: "requests ?S = requests s @ [PostUsers body (Some hdr), PostUsers (demoUser rnd) None] \<and>
           user ?S = localDemoUser \<and> userStats ?S = localDemoStats"
    if p: "isl (net (length (requests s) + 1) (PostUsers (demoUser rnd) None))"
  proof -
    have "isl (net (length (requests ?s1)) (PostUsers (demoUser rnd) None))"
      using p len by simp
    from createDemoUser_post_rejected [of net ?s1 rnd, OF this]
      createDemoUser_post_fails [of net ?s1 rnd, OF this]
    show ?thesis by (simp add: eq rq)
  qed
  have 5: "requests (snd (refreshUserStats net ?S)) =
              requests s @ [PostUsers body (Some hdr), PostUsers (demoUser rnd) None,
                            GetStats ''demo-user''] \<and>
           get_prop (userStats (snd (refreshUserStats net ?S))) ''bestScore'' = Inr (JNum 0) \<and>
           get_prop (userStats (snd (refreshUserStats net ?S))) ''gamesPlayed'' = Inr (JNum 0) \<and>
           get_prop (userStats (snd (refreshUserStats net ?S))) ''totalScore'' = Inr (JNum 0) \<and>
           get_prop (userStats (snd (refreshUserStats net ?S))) ''rank'' =
              (case net (length (requests s) + 2) (GetStats ''demo-user'') of
                 Inl e \<Rightarrow> Inr (JNum 0)
               | Inr data \<Rightarrow>
                   (case get_prop data ''rank'' of Inl e \<Rightarrow> Inr (JNum 0) | Inr r \<Rightarrow> Inr r))"
    if p: "isl (net (length (requests s) + 1) (PostUsers (demoUser rnd) None))"
  proof -
    from 4 [OF p] have u: "user ?S = localDemoUser" and st: "userStats ?S = localDemoStats"
      and r: "requests ?S = requests s @ [PostUsers body (Some hdr), PostUsers (demoUser rnd) None]"
      by simp_all
    from refresh_local_user [OF u st, of net] r show ?thesis by simp
  qed
  from 1 2 3 5 show ?thesis
    by (auto simp: localDemoStats_def)
qed

theorem demo_path_attempted_once_witness:
  "demo_attempt_fails posts_rejected_net (length (requests App_init) + 1) 5 \<and>
   demo_attempts (snd (initializeApp posts_rejected_net 5 6
       (Some (scenario_host (JStr ''tok''))) App_init)) = demo_attempts App_init + 1 \<and>
   get_prop (userStats (snd (initializeApp posts_rejected_net 5 6
       (Some (scenario_host (JStr ''tok''))) App_init))) ''rank'' = Inr (JNum 0) \<and>
   get_prop (userStats (snd (refreshUserStats posts_rejected_net (snd (initializeApp posts_rejected_net 5 6
       (Some (scenario_host (JStr ''tok''))) App_init))))) ''bestScore'' = Inr (JNum 0) \<and>
   get_prop (userStats (snd (refreshUserStats posts_rejected_net (snd (initializeApp posts_rejected_net 5 6
       (Some (scenario_host (JStr ''tok''))) App_init))))) ''rank'' = Inr (JNum 9)"
proof -
  let ?tg = "Some (scenario_host (JStr ''tok''))"
  let ?body = "JObj [(''telegram_id'', JNum 42), (''username'', JStr ''alice''),
         (''first_name'', JUndefined), (''last_name'', JUndefined), (''photo_url'', JUndefined)]"
  have 1: "truthy (host_user ?tg)" by (simp add: host_user_def scenario_host_def)
  have 2: "\<not> ready_throws (scenario_host (JStr ''tok''))" by (simp add: scenario_host_def)
  have 3: "\<not> expand_throws (scenario_host (JStr ''tok''))" by (simp add: scenario_host_def)
  have 4: "userData (host_user ?tg) = Inr ?body"
    by (simp add: host_user_def scenario_host_def userData_def js_or_def)
  have 5: "js_or (Inr (initData (scenario_host (JStr ''tok'')))) (Inr (JStr [])) = Inr (JStr ''tok'')"
    by (simp add: scenario_host_def js_or_def)
  have 6: "demo_attempt_fails posts_rejected_net (length (requests App_init) + 1) 5"
    by (simp add: demo_attempt_fails_def posts_rejected_net_def)
  from demo_path_attempted_once [OF refl 1 2 3 4 5, of posts_rejected_net App_init 5 6] 6
  show ?thesis by (simp add: posts_rejected_net_def localDemoStats_def)
qed

subsection \<open>The example scenario\<close>

lemmas scenario_defs = scenario_host_def scenario_net_def scenario_response_def scenario_response_wire_def
  scenario_response_named_def initializeApp_def initializeApp_try_def initializeApp_real_def
  host_user_def userData_def merged_stats_def js_or_def http_def console_out_def App_init_def

text \<open>
  Claim C7, as stated, fails. The statistics take the user name from the response of
  \<^verbatim>\<open>/users\<close>, not from the host identity, and read the keys \<^verbatim>\<open>best_score\<close>,
  \<^verbatim>\<open>games_played\<close> and \<^verbatim>\<open>total_score\<close>. With the response of the scenario the user
  name is \<^verbatim>\<open>"ID: undefined"\<close> and the best score is \<^verbatim>\<open>undefined\<close>; with the same
  record under the keys the code reads, the user name still is \<^verbatim>\<open>"ID: undefined"\<close>.
\<close>

theorem example_scenario_counterexample:
  "get_prop (userStats (snd (initializeApp (scenario_net scenario_response) 0 0
       (Some (scenario_host (JStr []))) App_init))) ''username'' = Inr (JStr ''ID: undefined'') \<and>
   get_prop (userStats (snd (initializeApp (scenario_net scenario_response) 0 0
       (Some (scenario_host (JStr []))) App_init))) ''username'' \<noteq> Inr (JStr ''alice'') \<and>
   get_prop (userStats (snd (initializeApp (scenario_net scenario_response) 0 0
       (Some (scenario_host (JStr []))) App_init))) ''bestScore'' = Inr JUndefined \<and>
   get_prop (userStats (snd (initializeApp (scenario_net scenario_response_wire) 0 0
       (Some (scenario_host (JStr []))) App_init))) ''username'' = Inr (JStr ''ID: undefined'') \<and>
   get_prop (userStats (snd (initializeApp (scenario_net scenario_response_wire) 0 0
       (Some (scenario_host (JStr []))) App_init))) ''username'' \<noteq> Inr (JStr ''alice'')"
  by (simp add: scenario_defs)

text \<open>
  Claim C7, amended. When the response of \<^verbatim>\<open>/users\<close> is
  \<^verbatim>\<open>{id: "u1", username: "alice", best_score: 100, games_played: 3, total_score: 250}\<close>
  and the rank fetch answers \<^verbatim>\<open>{rank: 7}\<close>, the statistics after bootstrap are
  \<^verbatim>\<open>{username: "alice", avatar: undefined, bestScore: 100, gamesPlayed: 3,
  totalScore: 250, rank: 7}\<close>, the user is the response, and the two requests sent are the
  post of the host identity and the rank fetch for \<^verbatim>\<open>u1\<close>.
\<close>

theorem example_scenario:
  "userStats (snd (initializeApp (scenario_net scenario_response_named) rnd rnd'
       (Some (scenario_host d)) App_init)) =
     JObj [(''username'', JStr ''alice''), (''avatar'', JUndefined), (''bestScore'', JNum 100),
           (''gamesPlayed'', JNum 3), (''totalScore'', JNum 250), (''rank'', JNum 7)] \<and>
   user (snd (initializeApp (scenario_net scenario_response_named) rnd rnd'
       (Some (scenario_host d)) App_init)) = scenario_response_named \<and>
   requests (snd (initializeApp (scenario_net scenario_response_named) rnd rnd'
       (Some (scenario_host d)) App_init)) =
     [PostUsers (JObj [(''telegram_id'', JNum 42), (''username'', JStr ''alice''),
         (''first_name'', JUndefined), (''last_name'', JUndefined), (''photo_url'', JUndefined)])
        (Some (if truthy d then d else JStr [])),
      GetStats ''u1'']"
  by (simp add: scenario_defs)

subsection \<open>A backend that answers with empty bodies\<close>

text \<open>With such a backend and no host, bootstrap ends with the empty string as user and
  with statistics of rank 5.\<close>

lemma empty_body_bootstrap:
  "user (snd (initializeApp empty_body_net 0 0 None App_init)) = JStr [] \<and>
   userStats (snd (initializeApp empty_body_net 0 0 None App_init)) =
     JObj [(''username'', JStr ''ID: undefined''), (''avatar'', JUndefined),
           (''bestScore'', JUndefined), (''gamesPlayed'', JUndefined),
           (''totalScore'', JUndefined), (''rank'', JNum 5)] \<and>
   activeTab (snd (initializeApp empty_body_net 0 0 None App_init)) = ''game'' \<and>
   requests (snd (initializeApp empty_body_net 0 0 None App_init)) =
     [PostUsers (demoUser 0) None, GetStats ''undefined'']"
  by (simp add: initializeApp_def initializeApp_try_def createDemoUser_def createDemoUser_try_def
      merged_stats_def js_or_def http_def console_out_def App_init_def empty_body_net_def)

section \<open>Properties of the game session\<close>

lemma simulateGameOver_over:
  "fst (simulateGameOver net u rnd now s) = None \<and>
   gameOver (snd (simulateGameOver net u rnd now s)) \<and>
   \<not> isPlaying (snd (simulateGameOver net u rnd now s)) \<and>
   score (snd (simulateGameOver net u rnd now s)) = rnd + 1000 \<and>
   gameStartTime (snd (simulateGameOver net u rnd now s)) = gameStartTime s"
proof -
  obtain c where c: "js_and (Inr u) (get_prop u ''id'') = Inr c"
    using user_and_id_total by blast
  then show ?thesis
    by (cases "get_prop u ''id''")
       (auto simp: simulateGameOver_def Let_def http_def console_out_def split: prod.splits sum.splits)
qed

lemma simulateGameOver_with_user:
  assumes "truthy u" "get_prop u ''id'' = Inr uid" "truthy uid"
  shows "requests (snd (simulateGameOver net u rnd now s)) =
           requests s @ [PostScores (JObj [(''user_id'', uid), (''score'', JNum (rnd + 1000)),
              (''game_duration'', JNum (gameDuration (gameStartTime s) now))])] \<and>
         console (snd (simulateGameOver net u rnd now s)) =
           console s @ [if isl (net (length (requests s))
                 (PostScores (JObj [(''user_id'', uid), (''score'', JNum (rnd + 1000)),
                    (''game_duration'', JNum (gameDuration (gameStartTime s) now))])))
              then (Error, ''Failed to submit score:'')
              else (Log, ''Score submitted successfully'')]"
  using assms
  by (auto simp: simulateGameOver_def js_and_def Let_def http_def console_out_def
      split: prod.splits sum.splits)

lemma simulateGameOver_without_user:
  assumes "\<not> (truthy u \<and> (\<exists>v. get_prop u ''id'' = Inr v \<and> truthy v))"
  shows "requests (snd (simulateGameOver net u rnd now s)) = requests s \<and>
         console (snd (simulateGameOver net u rnd now s)) = console s"
proof -
  obtain c where c: "js_and (Inr u) (get_prop u ''id'') = Inr c"
    using user_and_id_total by blast
  with assms user_and_id_truthy [OF c] have "\<not> truthy c" by simp
  then show ?thesis
    by (simp add: simulateGameOver_def c Let_def)
qed

text \<open>
  Claim C3, as stated, fails: a session in state Playing whose \<^verbatim>\<open>user\<close> prop is
  \<^verbatim>\<open>null\<close> ends without any post to \<^verbatim>\<open>/scores\<close>, because the submission stands under
  \<^verbatim>\<open>if (user && user.id)\<close>. The same happens with the user that bootstrap installs
  when the backend answers with empty bodies.
\<close>

theorem end_game_submits_once_counterexample:
  "isPlaying (startGame 1000 BlockBlastGame_init) \<and>
   \<not> gameOver (startGame 1000 BlockBlastGame_init) \<and>
   score_submissions
     (snd (simulateGameOver (\<lambda>k q. Inr JNull) JNull 5 3000 (startGame 1000 BlockBlastGame_init))) = 0 \<and>
   score_submissions
     (snd (simulateGameOver (\<lambda>k q. Inr JNull) JNull 5 3000 (startGame 1000 BlockBlastGame_init))) \<noteq> 1 \<and>
   score_submissions
     (snd (simulateGameOver empty_body_net
        (user (snd (initializeApp empty_body_net 0 0 None App_init))) 5 3000
        (startGame 1000 BlockBlastGame_init))) = 0"
  by (simp add: empty_body_bootstrap simulateGameOver_def startGame_def BlockBlastGame_init_def
      js_and_def score_submissions_def)

text \<open>
  Claim C3, amended. When the \<^verbatim>\<open>user\<close> prop is truthy and has a truthy \<^verbatim>\<open>id\<close>, then
  from every state (in particular from Playing) \<^verbatim>\<open>simulateGameOver\<close> returns without an
  error, leaves \<^verbatim>\<open>gameOver = true\<close> and \<^verbatim>\<open>isPlaying = false\<close>, and appends exactly one
  request, the post of \<^verbatim>\<open>{user_id, score, game_duration}\<close> to \<^verbatim>\<open>/scores\<close>, whatever the
  network answers; the answer only decides which line is written to the console.
\<close>

theorem end_game_submits_once:
  assumes "truthy u" and "get_prop u ''id'' = Inr uid" and "truthy uid"
  shows "fst (simulateGameOver net u rnd now s) = None \<and>
         gameOver (snd (simulateGameOver net u rnd now s)) \<and>
         \<not> isPlaying (snd (simulateGameOver net u rnd now s)) \<and>
         score (snd (simulateGameOver net u rnd now s)) = rnd + 1000 \<and>
         score_submissions (snd (simulateGameOver net u rnd now s)) = score_submissions s + 1 \<and>
         requests (snd (simulateGameOver net u rnd now s)) =
           requests s @ [PostScores (JObj [(''user_id'', uid), (''score'', JNum (rnd + 1000)),
              (''game_duration'', JNum (gameDuration (gameStartTime s) now))])] \<and>
         console (snd (simulateGameOver net u rnd now s)) =
           console s @ [if isl (net (length (requests s))
                 (PostScores (JObj [(''user_id'', uid), (''score'', JNum (rnd + 1000)),
                    (''game_duration'', JNum (gameDuration (gameStartTime s) now))])))
              then (Error, ''Failed to submit score:'')
              else (Log, ''Score submitted successfully'')]"
  using simulateGameOver_over [of net u rnd now s]
    simulateGameOver_with_user [OF assms, of net rnd now s]
  by (simp add: score_submissions_def)

theorem end_game_submits_once_witness:
  "gameOver (snd (simulateGameOver (\<lambda>k q. Inl NetworkError) (JObj [(''id'', JStr ''u1'')]) 5 3000
      (startGame 1000 BlockBlastGame_init))) \<and>
   requests (snd (simulateGameOver (\<lambda>k q. Inl NetworkError) (JObj [(''id'', JStr ''u1'')]) 5 3000
      (startGame 1000 BlockBlastGame_init))) =
     [PostScores (JObj [(''user_id'', JStr ''u1''), (''score'', JNum 1005), (''game_duration'', JNum 2)])] \<and>
   console (snd (simulateGameOver (\<lambda>k q. Inl NetworkError) (JObj [(''id'', JStr ''u1'')]) 5 3000
      (startGame 1000 BlockBlastGame_init))) = [(Error, ''Failed to submit score:'')]"
  using end_game_submits_once [of "JObj [(''id'', JStr ''u1'')]" "JStr ''u1''"
      "\<lambda>k q. Inl NetworkError" 5 3000 "startGame 1000 BlockBlastGame_init"]
  by (simp add: startGame_def BlockBlastGame_init_def gameDuration_def)

text \<open>
  Claim C9. When no user with an id is present (the \<^verbatim>\<open>user\<close> prop is falsy, as
  \<^verbatim>\<open>null\<close> is, or its \<^verbatim>\<open>id\<close> is missing or falsy), \<^verbatim>\<open>simulateGameOver\<close> sends no
  request at all, and still leaves \<^verbatim>\<open>gameOver = true\<close>, \<^verbatim>\<open>isPlaying = false\<close> and the
  final score.
\<close>

theorem end_game_without_user:
  assumes "\<not> (truthy u \<and> (\<exists>v. get_prop u ''id'' = Inr v \<and> truthy v))"
  shows "fst (simulateGameOver net u rnd now s) = None \<and>
         requests (snd (simulateGameOver net u rnd now s)) = requests s \<and>
         gameOver (snd (simulateGameOver net u rnd now s)) \<and>
         \<not> isPlaying (snd (simulateGameOver net u rnd now s)) \<and>
         score (snd (simulateGameOver net u rnd now s)) = rnd + 1000"
  using simulateGameOver_over [of net u rnd now s]
    simulateGameOver_without_user [OF assms, of net rnd now s]
  by simp

theorem end_game_without_user_witness:
  "requests (snd (simulateGameOver (\<lambda>k q. Inr JNull) JNull 5 3000
      (startGame 1000 BlockBlastGame_init))) = [] \<and>
   gameOver (snd (simulateGameOver (\<lambda>k q. Inr JNull) JNull 5 3000
      (startGame 1000 BlockBlastGame_init))) \<and>
   requests (snd (simulateGameOver (\<lambda>k q. Inr JNull) (JObj [(''username'', JStr ''bob'')]) 5 3000
      (startGame 1000 BlockBlastGame_init))) = [] \<and>
   score (snd (simulateGameOver (\<lambda>k q. Inr JNull) (JObj [(''username'', JStr ''bob'')]) 5 3000
      (startGame 1000 BlockBlastGame_init))) = 1005"
  using end_game_without_user [of JNull "\<lambda>k q. Inr JNull" 5 3000 "startGame 1000 BlockBlastGame_init"]
    end_game_without_user [of "JObj [(''username'', JStr ''bob'')]" "\<lambda>k q. Inr JNull" 5 3000
      "startGame 1000 BlockBlastGame_init"]
  by (simp add: startGame_def BlockBlastGame_init_def)

text \<open>
  Claim C4. From every state \<^verbatim>\<open>startGame\<close> leaves \<^verbatim>\<open>score = 0\<close>,
  \<^verbatim>\<open>isPlaying = true\<close>, \<^verbatim>\<open>gameOver = false\<close> and the time of the call in
  \<^verbatim>\<open>gameStartTime\<close>, and sends nothing. A button bound to \<^verbatim>\<open>startGame\<close> is rendered
  exactly in the states Idle (neither flag set) and Over (\<^verbatim>\<open>gameOver\<close> set); in state
  Playing no button is rendered at all. The start button and the restart button are bound
  to the same handler, whose result does not depend on the four cells of the state it
  starts from.
\<close>

theorem start_game_postcondition:
  "score (startGame now s) = 0 \<and>
   isPlaying (startGame now s) \<and>
   \<not> gameOver (startGame now s) \<and>
   gameStartTime (startGame now s) = Some now \<and>
   requests (startGame now s) = requests s \<and>
   (StartGame \<in> set (BlockBlastGame_buttons s)) =
     ((\<not> isPlaying s \<and> \<not> gameOver s) \<or> gameOver s) \<and>
   (isPlaying s \<and> \<not> gameOver s) = (BlockBlastGame_buttons s = []) \<and>
   startGame now (s\<lparr>score := a, gameOver := b, isPlaying := c, gameStartTime := d\<rparr>) =
     startGame now s"
  by (auto simp: startGame_def BlockBlastGame_buttons_def)

section \<open>Properties of the tab router and of the rank overlay\<close>

lemma overlay_total: "\<exists>ov. PlayerRankOverlay u st t = Inr ov"
  by (cases st) (auto simp: PlayerRankOverlay_def Let_def)

lemma panels_append: "panels (xs @ ys) = panels xs @ panels ys"
  by (induction xs rule: panels.induct) auto

lemma panels_nav: "panels (map (\<lambda>tab. NavButton (f tab) (g tab)) ts) = []"
  by (induction ts) auto

lemma nav_targets_append: "nav_targets (xs @ ys) = nav_targets xs @ nav_targets ys"
  by (induction xs rule: nav_targets.induct) auto

lemma nav_targets_nav: "nav_targets (map (\<lambda>tab. NavButton (f tab) (g tab)) ts) = map f ts"
  by (induction ts) auto

lemma App_render_panels:
  assumes "\<not> isLoading s"
  shows "\<exists>es. App_render s = Inr es \<and> panels es = [ActiveComponent s] \<and>
           nav_targets es = map fst tabs"
proof -
  obtain ov where "PlayerRankOverlay (user s) (userStats s) (activeTab s) = Inr ov"
    using overlay_total by blast
  with assms show ?thesis
    by (cases ov) (simp_all add: App_render_def panels_append panels_nav nav_targets_append nav_targets_nav)
qed

lemma ActiveComponent_tab:
  "(tid, c) \<in> set tabs \<Longrightarrow> ActiveComponent (setActiveTab tid s) = c"
  by (auto simp: tabs_def ActiveComponent_def setActiveTab_def)

text \<open>
  Claim C6. The selected tab starts as \<^verbatim>\<open>game\<close>, and the ids of the table are
  \<^verbatim>\<open>duels\<close>, \<^verbatim>\<open>leaders\<close>, \<^verbatim>\<open>game\<close>, \<^verbatim>\<open>shop\<close>, \<^verbatim>\<open>profile\<close>. Once the loading screen
  is gone, selecting an id of the table makes it the selected tab and \<^verbatim>\<open>App\<close> renders
  exactly one panel, the component of that id, with navigation buttons that again select
  ids of the table only. Selecting the same id again changes neither the state nor what is
  rendered; selecting the tab that is already active leaves the state as it is.
\<close>

theorem tab_selection:
  assumes "(tid, c) \<in> set tabs" and "\<not> isLoading s"
  shows "activeTab App_init = ''game'' \<and>
         map fst tabs = [''duels'', ''leaders'', ''game'', ''shop'', ''profile''] \<and>
         activeTab (setActiveTab tid s) = tid \<and>
         (\<exists>es. App_render (setActiveTab tid s) = Inr es \<and> panels es = [c] \<and>
               nav_targets es = map fst tabs) \<and>
         setActiveTab tid (setActiveTab tid s) = setActiveTab tid s \<and>
         App_render (setActiveTab tid (setActiveTab tid s)) = App_render (setActiveTab tid s) \<and>
         (if activeTab s = tid then setActiveTab tid s = s else activeTab (setActiveTab tid s) \<noteq> activeTab s)"
proof -
  have "\<not> isLoading (setActiveTab tid s)" using assms(2) by (simp add: setActiveTab_def)
  from App_render_panels [OF this] ActiveComponent_tab [OF assms(1), of s]
  show ?thesis
    by (simp add: App_init_def tabs_def setActiveTab_def)
qed

theorem tab_selection_witness:
  "(''leaders'', LeadersTab) \<in> set tabs \<and>
   \<not> isLoading (App_init\<lparr>isLoading := False\<rparr>) \<and>
   App_render (setActiveTab ''leaders'' (App_init\<lparr>isLoading := False\<rparr>)) =
     Inr [Panel LeadersTab JNull ''leaders'', NavButton ''duels'' False, NavButton ''leaders'' True,
          NavButton ''game'' False, NavButton ''shop'' False, NavButton ''profile'' False] \<and>
   setActiveTab ''leaders'' (setActiveTab ''leaders'' (App_init\<lparr>isLoading := False\<rparr>)) =
     setActiveTab ''leaders'' (App_init\<lparr>isLoading := False\<rparr>)"
  using tab_selection [of "''leaders''" LeadersTab "App_init\<lparr>isLoading := False\<rparr>"]
  by (simp add: tabs_def App_init_def setActiveTab_def App_render_def PlayerRankOverlay_def
      ActiveComponent_def)

text \<open>
  Claim C10, as stated, fails: \<^verbatim>\<open>!user\<close> tests falsiness, not only \<^verbatim>\<open>null\<close>. In the
  state bootstrap reaches with the backend of empty bodies, the user is the empty string,
  the statistics have rank 5 and the tab is \<^verbatim>\<open>game\<close>: none of the four conditions of
  the claim holds, and the overlay still renders nothing.
\<close>

theorem rank_overlay_counterexample:
  "user (snd (initializeApp empty_body_net 0 0 None App_init)) = JStr [] \<and>
   user (snd (initializeApp empty_body_net 0 0 None App_init)) \<noteq> JNull \<and>
   userStats (snd (initializeApp empty_body_net 0 0 None App_init)) \<noteq> JNull \<and>
   get_prop (userStats (snd (initializeApp empty_body_net 0 0 None App_init))) ''rank'' = Inr (JNum 5) \<and>
   get_prop (userStats (snd (initializeApp empty_body_net 0 0 None App_init))) ''rank'' \<noteq> Inr (JNum 0) \<and>
   activeTab (snd (initializeApp empty_body_net 0 0 None App_init)) \<noteq> ''profile'' \<and>
   PlayerRankOverlay (user (snd (initializeApp empty_body_net 0 0 None App_init)))
     (userStats (snd (initializeApp empty_body_net 0 0 None App_init)))
     (activeTab (snd (initializeApp empty_body_net 0 0 None App_init))) = Inr None"
  by (simp add: empty_body_bootstrap PlayerRankOverlay_def)

lemma overlay_hidden:
  "(PlayerRankOverlay u st tab = Inr None) =
     (\<not> (truthy u \<and> truthy st \<and> get_prop st ''rank'' \<noteq> Inr (JNum 0) \<and> tab \<noteq> ''profile''))"
  by (cases st) (auto simp: PlayerRankOverlay_def Let_def)

lemma overlay_shown:
  assumes "truthy u" "truthy st" "get_prop st ''rank'' \<noteq> Inr (JNum 0)" "tab \<noteq> ''profile''"
  shows "\<exists>v. PlayerRankOverlay u st tab = Inr (Some v) \<and>
             get_prop st ''username'' = Inr (ov_username v) \<and>
             get_prop st ''rank'' = Inr (ov_rank v)"
  using assms by (cases st) (auto simp: PlayerRankOverlay_def Let_def)

lemma overlay_never_rank_zero:
  "PlayerRankOverlay u st tab = Inr (Some v) \<Longrightarrow> ov_rank v \<noteq> JNum 0"
  by (cases st) (auto simp: PlayerRankOverlay_def Let_def split: if_splits)

text \<open>
  Claim C10, amended. \<^verbatim>\<open>PlayerRankOverlay\<close> renders nothing exactly when \<^verbatim>\<open>user\<close> is
  falsy, or \<^verbatim>\<open>userStats\<close> is falsy, or \<^verbatim>\<open>userStats.rank === 0\<close>, or the active tab is
  \<^verbatim>\<open>profile\<close>; in every other state it renders \<^verbatim>\<open>userStats.username\<close> and
  \<^verbatim>\<open>userStats.rank\<close>. A rank it renders is never the number 0.
\<close>

theorem rank_overlay:
  "(PlayerRankOverlay u st tab = Inr None) =
     (\<not> (truthy u \<and> truthy st \<and> get_prop st ''rank'' \<noteq> Inr (JNum 0) \<and> tab \<noteq> ''profile'')) \<and>
   (truthy u \<and> truthy st \<and> get_prop st ''rank'' \<noteq> Inr (JNum 0) \<and> tab \<noteq> ''profile'' \<longrightarrow>
      (\<exists>v. PlayerRankOverlay u st tab = Inr (Some v) \<and>
           get_prop st ''username'' = Inr (ov_username v) \<and>
           get_prop st ''rank'' = Inr (ov_rank v))) \<and>
   (\<forall>v. PlayerRankOverlay u st tab = Inr (Some v) \<longrightarrow> ov_rank v \<noteq> JNum 0)"
  using overlay_hidden [of u st tab] overlay_shown [of u st tab] overlay_never_rank_zero [of u st tab]
  by blast

theorem rank_overlay_witness:
  "truthy (JObj [(''id'', JStr ''u1'')]) \<and>
   truthy (JObj [(''username'', JStr ''bob''), (''avatar'', JNull), (''rank'', JNum 5)]) \<and>
   PlayerRankOverlay (JObj [(''id'', JStr ''u1'')])
     (JObj [(''username'', JStr ''bob''), (''avatar'', JNull), (''rank'', JNum 5)]) ''game'' =
     Inr (Some \<lparr>ov_avatar = None, ov_username = JStr ''bob'', ov_rank = JNum 5\<rparr>) \<and>
   PlayerRankOverlay (JObj [(''id'', JStr ''u1'')])
     (JObj [(''username'', JStr ''bob''), (''avatar'', JNull), (''rank'', JNum 0)]) ''game'' = Inr None \<and>
   PlayerRankOverlay JNull
     (JObj [(''username'', JStr ''bob''), (''avatar'', JNull), (''rank'', JNum 5)]) ''game'' = Inr None \<and>
   PlayerRankOverlay (JObj [(''id'', JStr ''u1'')])
     (JObj [(''username'', JStr ''bob''), (''avatar'', JNull), (''rank'', JNum 5)]) ''profile'' = Inr None"
  using rank_overlay [of "JObj [(''id'', JStr ''u1'')]"
      "JObj [(''username'', JStr ''bob''), (''avatar'', JNull), (''rank'', JNum 5)]" "''game''"]
    rank_overlay [of "JObj [(''id'', JStr ''u1'')]"
      "JObj [(''username'', JStr ''bob''), (''avatar'', JNull), (''rank'', JNum 0)]" "''game''"]
    rank_overlay [of JNull
      "JObj [(''username'', JStr ''bob''), (''avatar'', JNull), (''rank'', JNum 5)]" "''game''"]
    rank_overlay [of "JObj [(''id'', JStr ''u1'')]"
      "JObj [(''username'', JStr ''bob''), (''avatar'', JNull), (''rank'', JNum 5)]" "''profile''"]
  by (simp add: PlayerRankOverlay_def)

section \<open>Properties of the fetch-on-mount panels\<close>

lemma fetchLeaders_never_rejects: "fst (fetchLeaders net s) = None"
  by (simp add: fetchLeaders_def http_def split: sum.splits)

lemma fetchLeaders_failure:
  assumes "isl (net (length (requests s)) GetLeaderboard)"
  shows "leaders (snd (fetchLeaders net s)) = mock_leaders \<and>
         \<not> leaders_loading (snd (fetchLeaders net s)) \<and>
         requests (snd (fetchLeaders net s)) = requests s @ [GetLeaderboard] \<and>
         console (snd (fetchLeaders net s)) = console s @ [(Error, ''Failed to fetch leaderboard:'')]"
proof -
  from assms obtain e where "net (length (requests s)) GetLeaderboard = Inl e"
    by (auto simp: isl_def)
  then show ?thesis
    by (simp add: fetchLeaders_def http_def console_out_def)
qed

lemma LeadersTab_render_mock:
  assumes "leaders s = mock_leaders" "\<not> leaders_loading s"
  shows "\<exists>rows. LeadersTab_render s = Inr (LeadersList rows) \<and>
           map row_rank rows = [JNum 1, JNum 2, JNum 3, JNum 4, JNum 5] \<and>
           map row_username rows =
             [JStr ''ProGamer'', JStr ''BlockMaster'', JStr ''PuzzleKing'', JStr ''GameHero'',
              JStr ''BlastExpert''] \<and>
           map row_score rows = [JNum 15420, JNum 12890, JNum 11230, JNum 9870, JNum 8450]"
  using assms by (simp add: LeadersTab_render_def mock_leaders_def render_leader_def mock_leader_def)

lemma fallback_stats_total:
  assumes "truthy u"
  shows "\<exists>kvs. fallback_stats u = Inr (JObj kvs)"
proof -
  have n: "\<not> nullish u" using assms by (rule truthy_not_nullish)
  obtain a b c d e f g where
    "get_prop u ''username'' = Inr a" "get_prop u ''first_name'' = Inr b"
    "get_prop u ''telegram_id'' = Inr c" "get_prop u ''photo_url'' = Inr d"
    "get_prop u ''best_score'' = Inr e" "get_prop u ''games_played'' = Inr f"
    "get_prop u ''total_score'' = Inr g"
    using get_prop_total [OF n] by metis
  then show ?thesis
    by (simp add: fallback_stats_def js_or_def)
qed

lemma fetchUserStats_never_rejects: "fst (fetchUserStats net u s) = None"
proof -
  obtain c where c: "js_and (Inr u) (get_prop u ''id'') = Inr c"
    using user_and_id_total by blast
  show ?thesis
  proof (cases "truthy c")
    case False
    with c show ?thesis by (simp add: fetchUserStats_def)
  next
    case True
    with user_and_id_truthy [OF c] have "truthy u" by simp
    from fallback_stats_total [OF this] obtain kvs where "fallback_stats u = Inr (JObj kvs)" ..
    with c True show ?thesis
      by (auto simp: fetchUserStats_def split: prod.splits option.splits)
  qed
qed

lemma fetchUserStats_failure:
  assumes "truthy u" "get_prop u ''id'' = Inr uid" "truthy uid"
    and "isl (net (length (requests s)) (GetStats (to_str uid)))"
  shows "Inr (profile_stats (snd (fetchUserStats net u s))) = fallback_stats u \<and>
         \<not> profile_loading (snd (fetchUserStats net u s)) \<and>
         requests (snd (fetchUserStats net u s)) = requests s @ [GetStats (to_str uid)]"
proof -
  from assms(4) obtain e where e: "net (length (requests s)) (GetStats (to_str uid)) = Inl e"
    by (auto simp: isl_def)
  from fallback_stats_total [OF assms(1)] obtain kvs where k: "fallback_stats u = Inr (JObj kvs)" ..
  from assms(1-3) e k show ?thesis
    by (simp add: fetchUserStats_def fetchUserStats_try_def js_and_def http_def console_out_def)
qed

lemma fallback_stats_fields:
  assumes "fallback_stats u = Inr st"
  shows "get_prop st ''rank'' = Inr (JNum 0) \<and>
         get_prop st ''bestScore'' = js_or (get_prop u ''best_score'') (Inr (JNum 0)) \<and>
         get_prop st ''gamesPlayed'' = js_or (get_prop u ''games_played'') (Inr (JNum 0)) \<and>
         get_prop st ''totalScore'' = js_or (get_prop u ''total_score'') (Inr (JNum 0))"
  using assms
  by (cases u) (auto simp: fallback_stats_def js_or_def split: if_splits sum.splits jsval.splits)

text \<open>
  Claim C5, as stated, fails for \<^verbatim>\<open>ProfileTab\<close>: when the rank fetch is rejected, the
  \<^verbatim>\<open>catch\<close> block keeps the counters of the \<^verbatim>\<open>user\<close> prop
  (\<^verbatim>\<open>user.best_score || 0\<close>, and so on) and zeroes the rank only. For a user with best
  score 100, 3 games and total score 250 the panel shows those numbers, not zeros.
\<close>

theorem fetch_failure_fallbacks_counterexample:
  "isl ((\<lambda>k q. Inl NetworkError :: error + jsval) (length (requests ProfileTab_init)) (GetStats ''u1'')) \<and>
   get_prop (profile_stats (snd (fetchUserStats (\<lambda>k q. Inl NetworkError) sample_user ProfileTab_init)))
     ''bestScore'' = Inr (JNum 100) \<and>
   get_prop (profile_stats (snd (fetchUserStats (\<lambda>k q. Inl NetworkError) sample_user ProfileTab_init)))
     ''bestScore'' \<noteq> Inr (JNum 0) \<and>
   get_prop (profile_stats (snd (fetchUserStats (\<lambda>k q. Inl NetworkError) sample_user ProfileTab_init)))
     ''gamesPlayed'' = Inr (JNum 3) \<and>
   get_prop (profile_stats (snd (fetchUserStats (\<lambda>k q. Inl NetworkError) sample_user ProfileTab_init)))
     ''totalScore'' = Inr (JNum 250)"
  by (simp add: fetchUserStats_def fetchUserStats_try_def fallback_stats_def sample_user_def
      ProfileTab_init_def js_and_def js_or_def http_def console_out_def)

text \<open>
  Claim C5, amended. When the leaderboard fetch is rejected, \<^verbatim>\<open>fetchLeaders\<close> returns
  without an error and \<^verbatim>\<open>LeadersTab\<close> renders exactly the five placeholder entries, in
  the order of their ranks 1 to 5. When the rank fetch of \<^verbatim>\<open>ProfileTab\<close> is rejected
  (it is sent only for a truthy user with a truthy id), \<^verbatim>\<open>fetchUserStats\<close> returns
  without an error, the rank is 0, and \<^verbatim>\<open>bestScore\<close>, \<^verbatim>\<open>gamesPlayed\<close> and
  \<^verbatim>\<open>totalScore\<close> are the counters of the user, each replaced by 0 only if it is missing
  or falsy.
\<close>

theorem fetch_failure_fallbacks:
  assumes "isl (net (length (requests s)) GetLeaderboard)"
    and "truthy u" and "get_prop u ''id'' = Inr uid" and "truthy uid"
    and "isl (net' (length (requests p)) (GetStats (to_str uid)))"
  shows "fst (fetchLeaders net s) = None \<and>
         leaders (snd (fetchLeaders net s)) = mock_leaders \<and>
         (\<exists>rows. LeadersTab_render (snd (fetchLeaders net s)) = Inr (LeadersList rows) \<and>
            map row_rank rows = [JNum 1, JNum 2, JNum 3, JNum 4, JNum 5] \<and>
            map row_username rows =
              [JStr ''ProGamer'', JStr ''BlockMaster'', JStr ''PuzzleKing'', JStr ''GameHero'',
               JStr ''BlastExpert''] \<and>
            map row_score rows = [JNum 15420, JNum 12890, JNum 11230, JNum 9870, JNum 8450]) \<and>
         fst (fetchUserStats net' u p) = None \<and>
         \<not> profile_loading (snd (fetchUserStats net' u p)) \<and>
         fallback_stats u = Inr (profile_stats (snd (fetchUserStats net' u p))) \<and>
         get_prop (profile_stats (snd (fetchUserStats net' u p))) ''rank'' = Inr (JNum 0) \<and>
         get_prop (profile_stats (snd (fetchUserStats net' u p))) ''bestScore'' =
           js_or (get_prop u ''best_score'') (Inr (JNum 0)) \<and>
         get_prop (profile_stats (snd (fetchUserStats net' u p))) ''gamesPlayed'' =
           js_or (get_prop u ''games_played'') (Inr (JNum 0)) \<and>
         get_prop (profile_stats (snd (fetchUserStats net' u p))) ''totalScore'' =
           js_or (get_prop u ''total_score'') (Inr (JNum 0))"
proof -
  have l: "leaders (snd (fetchLeaders net s)) = mock_leaders"
      "\<not> leaders_loading (snd (fetchLeaders net s))"
    using fetchLeaders_failure [of net s] assms(1) by simp_all
  have pf: "Inr (profile_stats (snd (fetchUserStats net' u p))) = fallback_stats u \<and>
         \<not> profile_loading (snd (fetchUserStats net' u p)) \<and>
         requests (snd (fetchUserStats net' u p)) = requests p @ [GetStats (to_str uid)]"
    using fetchUserStats_failure [of u uid net' p] assms(2-5) by blast
  then have f: "fallback_stats u = Inr (profile_stats (snd (fetchUserStats net' u p)))"
    by simp
  show ?thesis
    using l LeadersTab_render_mock [OF l] fetchLeaders_never_rejects [of net s]
      fetchUserStats_never_rejects [of net' u p] pf
      fallback_stats_fields [OF f] f
    by simp
qed

theorem fetch_failure_fallbacks_witness:
  "leaders (snd (fetchLeaders (\<lambda>k q. Inl NetworkError) LeadersTab_init)) = mock_leaders \<and>
   fst (fetchLeaders (\<lambda>k q. Inl NetworkError) LeadersTab_init) = None \<and>
   get_prop (profile_stats (snd (fetchUserStats (\<lambda>k q. Inl NetworkError)
      (JObj [(''id'', JStr ''u2''), (''username'', JStr ''carol'')]) ProfileTab_init))) ''bestScore'' =
     Inr (JNum 0) \<and>
   get_prop (profile_stats (snd (fetchUserStats (\<lambda>k q. Inl NetworkError)
      (JObj [(''id'', JStr ''u2''), (''username'', JStr ''carol'')]) ProfileTab_init))) ''rank'' =
     Inr (JNum 0)"
  using fetch_failure_fallbacks [of "\<lambda>k q. Inl NetworkError" LeadersTab_init
      "JObj [(''id'', JStr ''u2''), (''username'', JStr ''carol'')]" "JStr ''u2''"
      "\<lambda>k q. Inl NetworkError" ProfileTab_init]
  by (simp add: js_or_def)

section \<open>Properties of the poll\<close>

lemma simulateGameOver_panel:
  "mounted (snd (simulateGameOver net u rnd now s)) = mounted s \<and>
   intervals (snd (simulateGameOver net u rnd now s)) = intervals s \<and>
   cleanup (snd (simulateGameOver net u rnd now s)) = cleanup s \<and>
   next_interval (snd (simulateGameOver net u rnd now s)) = next_interval s"
proof -
  obtain c where c: "js_and (Inr u) (get_prop u ''id'') = Inr c"
    using user_and_id_total by blast
  then show ?thesis
    by (cases "get_prop u ''id''")
       (auto simp: simulateGameOver_def Let_def http_def console_out_def split: prod.splits sum.splits)
qed

lemma perform_panel:
  "mounted (perform net u h now rnd s) = mounted s \<and>
   intervals (perform net u h now rnd s) = intervals s \<and>
   cleanup (perform net u h now rnd s) = cleanup s \<and>
   next_interval (perform net u h now rnd s) = next_interval s"
  using simulateGameOver_panel [of net u rnd now s]
  by (cases h) (simp_all add: perform_def startGame_def)

lemma poll_callback_panel:
  "mounted (poll_callback net u t marker shown rnd now s) = mounted s \<and>
   intervals (poll_callback net u t marker shown rnd now s) = intervals s \<and>
   cleanup (poll_callback net u t marker shown rnd now s) = cleanup s \<and>
   next_interval (poll_callback net u t marker shown rnd now s) = next_interval s"
  using simulateGameOver_panel [of net u rnd now "s\<lparr>score := shown, gameStartTime := sees_gameStartTime t\<rparr>"]
  by (simp add: poll_callback_def)

lemma commit_in_order:
  assumes "timers_in_order old" "mounted new = mounted old" "intervals new = intervals old"
    "cleanup new = cleanup old" "next_interval new = next_interval old"
  shows "timers_in_order (commit old new)"
  using assms
  by (auto simp: timers_in_order_def commit_def poll_effect_def poll_cleanup_def
      split: option.splits if_splits)

lemma step_in_order:
  assumes "timers_in_order s"
  shows "timers_in_order (step net u ev s)"
proof (cases ev)
  case Mount
  with assms show ?thesis
    by (auto simp: step_def mount_def poll_effect_def timers_in_order_def)
next
  case (Click h now rnd)
  with assms commit_in_order [OF assms, of "perform net u h now rnd s"] perform_panel [of net u h now rnd s]
  show ?thesis by (simp add: step_def)
next
  case (Tick i marker shown rnd now)
  show ?thesis
  proof (cases "find (\<lambda>t. timer_id t = i) (intervals s)")
    case None
    with Tick assms show ?thesis by (simp add: step_def)
  next
    case (Some t)
    with Tick commit_in_order [OF assms, of "poll_callback net u t marker shown rnd now s"]
      poll_callback_panel [of net u t marker shown rnd now s]
    show ?thesis by (simp add: step_def)
  qed
next
  case Unmount
  with assms show ?thesis
    by (auto simp: step_def unmount_def poll_cleanup_def timers_in_order_def split: option.splits)
qed

lemma run_in_order:
  "timers_in_order s \<Longrightarrow> timers_in_order (run net u evs s)"
  by (induction evs arbitrary: s) (simp_all add: step_in_order)

lemma init_in_order: "timers_in_order poll_panel_init"
  by (simp add: timers_in_order_def poll_panel_init_def)

lemma run_append: "run net u (evs @ evs') s = run net u evs' (run net u evs s)"
  by (induction evs arbitrary: s) simp_all

lemma idle_tick:
  assumes "timers_in_order s" "\<not> isPlaying s"
  shows "step net u (Tick i marker shown rnd now) s = s"
proof (cases "find (\<lambda>t. timer_id t = i) (intervals s)")
  case None
  then show ?thesis by (simp add: step_def)
next
  case (Some t)
  then have "t \<in> set (intervals s)" by (auto simp: find_Some_iff in_set_conv_nth)
  with assms have "\<not> sees_isPlaying t"
    by (auto simp: timers_in_order_def split: if_splits option.splits)
  with Some show ?thesis
    by (simp add: step_def poll_callback_def commit_def)
qed

lemma commit_replaces:
  assumes "timers_in_order old" "mounted new = mounted old" "intervals new = intervals old"
    "cleanup new = cleanup old" "next_interval new = next_interval old"
    "isPlaying new \<noteq> isPlaying old \<or> gameStartTime new \<noteq> gameStartTime old"
  shows "set (map timer_id (intervals (commit old new))) \<inter> set (map timer_id (intervals old)) = {}"
  using assms
  by (auto simp: timers_in_order_def commit_def poll_effect_def poll_cleanup_def
      split: option.splits if_splits)

lemma step_replaces:
  assumes "timers_in_order s"
    and "isPlaying (step net u ev s) \<noteq> isPlaying s \<or> gameStartTime (step net u ev s) \<noteq> gameStartTime s"
  shows "set (map timer_id (intervals (step net u ev s))) \<inter> set (map timer_id (intervals s)) = {}"
proof (cases ev)
  case Mount
  with assms show ?thesis
    by (auto simp: step_def mount_def poll_effect_def timers_in_order_def split: if_splits)
next
  case (Click h now rnd)
  show ?thesis
  proof (cases "mounted s \<and> h \<in> set (BlockBlastGame_buttons_v1 s)")
    case False
    with Click assms(2) show ?thesis by (simp add: step_def)
  next
    case True
    let ?new = "perform net u h now rnd s"
    from True Click have st: "step net u ev s = commit s ?new" by (simp add: step_def)
    have ch: "isPlaying ?new \<noteq> isPlaying s \<or> gameStartTime ?new \<noteq> gameStartTime s"
      using assms(2) unfolding st
      by (auto simp: commit_def poll_effect_def poll_cleanup_def split: if_splits option.splits)
    from commit_replaces [OF assms(1) _ _ _ _ ch] perform_panel [of net u h now rnd s]
    show ?thesis unfolding st by simp
  qed
next
  case (Tick i marker shown rnd now)
  show ?thesis
  proof (cases "find (\<lambda>t. timer_id t = i) (intervals s)")
    case None
    with Tick assms(2) show ?thesis by (simp add: step_def)
  next
    case (Some t)
    let ?new = "poll_callback net u t marker shown rnd now s"
    from Some Tick have st: "step net u ev s = commit s ?new" by (simp add: step_def)
    have ch: "isPlaying ?new \<noteq> isPlaying s \<or> gameStartTime ?new \<noteq> gameStartTime s"
      using assms(2) unfolding st
      by (auto simp: commit_def poll_effect_def poll_cleanup_def split: if_splits option.splits)
    from commit_replaces [OF assms(1) _ _ _ _ ch] poll_callback_panel [of net u t marker shown rnd now s]
    show ?thesis unfolding st by simp
  qed
next
  case Unmount
  with assms show ?thesis
    by (auto simp: step_def unmount_def poll_cleanup_def timers_in_order_def split: option.splits if_splits)
qed

lemma in_order_count:
  "timers_in_order s \<Longrightarrow> length (intervals s) = (if mounted s then 1 else 0)"
  by (auto simp: timers_in_order_def split: option.splits if_splits)

lemma unmount_clears:
  "timers_in_order s \<Longrightarrow> intervals (step net u Unmount s) = []"
  by (auto simp: step_def unmount_def poll_cleanup_def timers_in_order_def split: option.splits if_splits)

lemmas poll_defs = run.simps step_def mount_def unmount_def commit_def poll_effect_def poll_cleanup_def
  perform_def startGame_def simulateGameOver_def poll_panel_init_def BlockBlastGame_buttons_v1_def
  js_and_def gameDuration_def poll_callback_def

text \<open>
  Claim C8, as stated, fails. The effect registers an interval on every run, whatever
  \<^verbatim>\<open>isPlaying\<close> is; only its callback tests \<^verbatim>\<open>isPlaying\<close>. After mount, start and
  end of game the session is Over, the interval registered while Playing is cleared, and
  a new interval is active.
\<close>

theorem poll_teardown_counterexample:
  "\<not> isPlaying (run (\<lambda>k q. Inl NetworkError) JNull
        [Mount, Click StartGame 1000 0, Click SimulateGameOver 3000 5] poll_panel_init) \<and>
   gameOver (run (\<lambda>k q. Inl NetworkError) JNull
        [Mount, Click StartGame 1000 0, Click SimulateGameOver 3000 5] poll_panel_init) \<and>
   isPlaying (run (\<lambda>k q. Inl NetworkError) JNull
        [Mount, Click StartGame 1000 0] poll_panel_init) \<and>
   intervals (run (\<lambda>k q. Inl NetworkError) JNull
        [Mount, Click StartGame 1000 0, Click SimulateGameOver 3000 5] poll_panel_init) =
     [\<lparr>timer_id = 2, sees_isPlaying = False, sees_gameStartTime = Some 1000\<rparr>] \<and>
   intervals (run (\<lambda>k q. Inl NetworkError) JNull
        [Mount, Click StartGame 1000 0, Click SimulateGameOver 3000 5] poll_panel_init) \<noteq> []"
  by (simp add: poll_defs)

text \<open>
  Claim C8, amended. After any sequence of mounts, clicks, interval ticks and unmounts,
  exactly one interval is active while the panel is mounted (in Idle, Playing and Over
  alike) and none while it is not; an unmount leaves none. Whenever a step changes
  \<^verbatim>\<open>isPlaying\<close> (so also when the game leaves Playing), no interval that was active
  before the step is active after it: the cleanup cleared it and the effect registered a
  new one. While the game is not Playing, a tick of an interval changes nothing.
\<close>

theorem poll_timers:
  "timers_in_order (run net u evs poll_panel_init) \<and>
   length (intervals (run net u evs poll_panel_init)) =
     (if mounted (run net u evs poll_panel_init) then 1 else 0) \<and>
   intervals (run net u (evs @ [Unmount]) poll_panel_init) = [] \<and>
   (isPlaying (run net u (evs @ [ev]) poll_panel_init) \<noteq> isPlaying (run net u evs poll_panel_init) \<longrightarrow>
      set (map timer_id (intervals (run net u (evs @ [ev]) poll_panel_init))) \<inter>
      set (map timer_id (intervals (run net u evs poll_panel_init))) = {}) \<and>
   (\<not> isPlaying (run net u evs poll_panel_init) \<longrightarrow>
      run net u (evs @ [Tick i marker shown rnd now]) poll_panel_init =
      run net u evs poll_panel_init)"
proof -
  let ?s = "run net u evs poll_panel_init"
  have o: "timers_in_order ?s"
    using init_in_order by (rule run_in_order)
  have r: "\<And>e. run net u (evs @ [e]) poll_panel_init = step net u e ?s"
    by (simp add: run_append)
  show ?thesis
    using o in_order_count [OF o] unmount_clears [OF o, of net u]
      step_replaces [OF o, of net u ev] idle_tick [OF o, of net u i marker shown rnd now]
    by (simp add: r)
qed

theorem poll_timers_witness:
  "isPlaying (run (\<lambda>k q. Inl NetworkError) JNull ([Mount] @ [Click StartGame 1000 0]) poll_panel_init) \<noteq>
     isPlaying (run (\<lambda>k q. Inl NetworkError) JNull [Mount] poll_panel_init) \<and>
   \<not> isPlaying (run (\<lambda>k q. Inl NetworkError) JNull [Mount] poll_panel_init) \<and>
   map timer_id (intervals (run (\<lambda>k q. Inl NetworkError) JNull [Mount] poll_panel_init)) = [0] \<and>
   map timer_id (intervals (run (\<lambda>k q. Inl NetworkError) JNull ([Mount] @ [Click StartGame 1000 0])
      poll_panel_init)) = [1] \<and>
   run (\<lambda>k q. Inl NetworkError) JNull ([Mount] @ [Tick 0 True 70 5 3000]) poll_panel_init =
     run (\<lambda>k q. Inl NetworkError) JNull [Mount] poll_panel_init \<and>
   intervals (run (\<lambda>k q. Inl NetworkError) JNull ([Mount] @ [Unmount]) poll_panel_init) = []"
  using poll_timers [of "\<lambda>k q. Inl NetworkError" JNull "[Mount]" "Click StartGame 1000 0" 0 True 70 5 3000]
  by (simp add: poll_defs)

end
